theory Spec2Isabelle
  imports Main
begin

section \<open>The runtime's Date object\<close>

text \<open>
  The progression engine of \<^verbatim>\<open>src/hooks/useGamification.ts\<close> only ever looks at a
  \<^verbatim>\<open>Date\<close> through its local-time getters (\<^verbatim>\<open>getFullYear\<close>, \<^verbatim>\<open>getMonth\<close>,
  \<^verbatim>\<open>getDate\<close>, \<^verbatim>\<open>getDay\<close>) and changes it through \<^verbatim>\<open>setDate\<close> and
  \<^verbatim>\<open>setHours(0, 0, 0, 0)\<close>.  A valid Date is therefore modelled by its local civil
  fields: year, month (0 = January, as in JavaScript), day of the month, and the
  milliseconds elapsed since local midnight; \<open>weekday\<close> is what \<^verbatim>\<open>getDay\<close> returns
  on it.  An Invalid Date (what \<^verbatim>\<open>new Date(s)\<close>
  yields for a string it cannot parse) is a value of its own; every getter returns NaN on
  it, modelled as \<open>None\<close>.  The engine works with whole numbers (entry counts, minutes,
  experience points), modelled as \<open>int\<close>.
\<close>

record civil =
  year :: int
  month :: nat
  mday :: nat
  msOfDay :: nat

datatype Date = InvalidDate | ValidDate civil

definition isLeapYear :: "int \<Rightarrow> bool" where
  "isLeapYear y = (y mod 4 = 0 \<and> (y mod 100 \<noteq> 0 \<or> y mod 400 = 0))"

definition daysInMonth :: "int \<Rightarrow> nat \<Rightarrow> nat" where
  "daysInMonth y m =
     (if m = 1 then (if isLeapYear y then 29 else 28)
      else if m = 3 \<or> m = 5 \<or> m = 8 \<or> m = 10 then 30
      else 31)"

definition validCivil :: "civil \<Rightarrow> bool" where
  "validCivil c = (month c < 12 \<and> 1 \<le> mday c \<and> mday c \<le> daysInMonth (year c) (month c))"

definition prevMonthYear :: "int \<Rightarrow> nat \<Rightarrow> int" where
  "prevMonthYear y m = (if m = 0 then y - 1 else y)"

definition prevMonth :: "nat \<Rightarrow> nat" where
  "prevMonth m = (if m = 0 then 11 else m - 1)"

definition nextMonthYear :: "int \<Rightarrow> nat \<Rightarrow> int" where
  "nextMonthYear y m = (if m \<ge> 11 then y + 1 else y)"

definition nextMonth :: "nat \<Rightarrow> nat" where
  "nextMonth m = (if m \<ge> 11 then 0 else m + 1)"

text \<open>
  \<^verbatim>\<open>setDate(n)\<close> accepts any day number and normalises it: day 0 is the last day of
  the previous month, a negative day reaches further back, a day past the end of the
  month runs into the following months.  \<open>normalizeDay y m n\<close> is the (year, month, day)
  that day \<open>n\<close> of month \<open>m\<close> of year \<open>y\<close> denotes.
\<close>

function normalizeDay :: "int \<Rightarrow> nat \<Rightarrow> int \<Rightarrow> int \<times> nat \<times> nat" where
  "normalizeDay y m n =
     (if n < 1 then
        normalizeDay (prevMonthYear y m) (prevMonth m)
          (n + int (daysInMonth (prevMonthYear y m) (prevMonth m)))
      else if int (daysInMonth y m) < n then
        normalizeDay (nextMonthYear y m) (nextMonth m) (n - int (daysInMonth y m))
      else (y, m, nat n))"
  by pat_completeness auto
termination
proof (relation "measure (\<lambda>(y, m, n). if n < 1 then nat (1 - n) + 32 else nat n)")
  show "wf (measure (\<lambda>(y, m, n). if n < 1 then nat (1 - n) + 32 else nat n))"
    by simp
next
  fix y :: int and m :: nat and n :: int
  assume lt: "n < 1"
  have "28 \<le> daysInMonth (prevMonthYear y m) (prevMonth m)"
       "daysInMonth (prevMonthYear y m) (prevMonth m) \<le> 31"
    by (simp_all add: daysInMonth_def)
  with lt show "((prevMonthYear y m, prevMonth m,
                  n + int (daysInMonth (prevMonthYear y m) (prevMonth m))), (y, m, n))
                \<in> measure (\<lambda>(y, m, n). if n < 1 then nat (1 - n) + 32 else nat n)"
    by auto
next
  fix y :: int and m :: nat and n :: int
  assume "\<not> n < 1" and gt: "int (daysInMonth y m) < n"
  have "28 \<le> daysInMonth y m"
    by (simp add: daysInMonth_def)
  with gt show "((nextMonthYear y m, nextMonth m, n - int (daysInMonth y m)), (y, m, n))
                \<in> measure (\<lambda>(y, m, n). if n < 1 then nat (1 - n) + 32 else nat n)"
    by auto
qed

declare normalizeDay.simps [simp del]

text \<open>The getters; \<open>None\<close> is NaN.\<close>

definition getFullYear :: "Date \<Rightarrow> int option" where
  "getFullYear d = (case d of InvalidDate \<Rightarrow> None | ValidDate c \<Rightarrow> Some (year c))"

definition getMonth :: "Date \<Rightarrow> int option" where
  "getMonth d = (case d of InvalidDate \<Rightarrow> None | ValidDate c \<Rightarrow> Some (int (month c)))"

definition getDate :: "Date \<Rightarrow> int option" where
  "getDate d = (case d of InvalidDate \<Rightarrow> None | ValidDate c \<Rightarrow> Some (int (mday c)))"

text \<open>
  Days between 1 January 1970 and a civil date, for the day of the week
  (1 January 1970 was a Thursday; \<^verbatim>\<open>getDay\<close> counts from Sunday = 0).
\<close>

definition daysFromCivil :: "int \<Rightarrow> nat \<Rightarrow> nat \<Rightarrow> int" where
  "daysFromCivil y m d =
     (let y' = (if m < 2 then y - 1 else y);
          era = y' div 400;
          yoe = y' - era * 400;
          mp = (if m < 2 then int m + 10 else int m - 2);
          doy = (153 * mp + 2) div 5 + int d - 1;
          doe = yoe * 365 + yoe div 4 - yoe div 100 + doy
      in era * 146097 + doe - 719468)"

definition weekday :: "civil \<Rightarrow> int" where
  "weekday c = (daysFromCivil (year c) (month c) (mday c) + 4) mod 7"

text \<open>\<^verbatim>\<open>===\<close> on numbers: NaN is equal to nothing, itself included.\<close>

definition strictEq :: "int option \<Rightarrow> int option \<Rightarrow> bool" where
  "strictEq a b = (case a of None \<Rightarrow> False | Some x \<Rightarrow> (case b of None \<Rightarrow> False | Some y \<Rightarrow> x = y))"

definition setDateCivil :: "civil \<Rightarrow> int \<Rightarrow> civil" where
  "setDateCivil c n =
     (case normalizeDay (year c) (month c) n of
        (y, m, d) \<Rightarrow> c\<lparr>year := y, month := m, mday := d\<rparr>)"

definition setDate :: "Date \<Rightarrow> int option \<Rightarrow> Date" where
  "setDate d n =
     (case d of InvalidDate \<Rightarrow> InvalidDate
      | ValidDate c \<Rightarrow> (case n of None \<Rightarrow> InvalidDate | Some k \<Rightarrow> ValidDate (setDateCivil c k)))"

text \<open>
  What the host supplies: the parser behind \<^verbatim>\<open>new Date(string)\<close>, which reads the
  string in the host's time zone, and \<^verbatim>\<open>toISOString\<close>, which is only ever applied to
  dates derived from the clock (\<^verbatim>\<open>new Date()\<close>), which are valid.  Whatever the host,
  \<^verbatim>\<open>new Date("")\<close> is an Invalid Date.
\<close>

record host =
  parseDate :: "string \<Rightarrow> Date"
  toISOString :: "civil \<Rightarrow> string"

definition newDate :: "host \<Rightarrow> string \<Rightarrow> Date" where
  "newDate h s = (if s = [] then InvalidDate else parseDate h s)"

section \<open>Helper functions\<close>

definition calculateLevel :: "int \<Rightarrow> int" where
  "calculateLevel xp = (if xp < 100 then 0 else xp div 100)"

definition getXPForLevel :: "int \<Rightarrow> int" where
  "getXPForLevel level = level * 100"

record XPProgress =
  current :: int
  required :: int

text \<open>
  \<^verbatim>\<open>getXPProgress\<close> also returns a floating-point percentage for the progress bar,
  which is left out here.
\<close>

definition getXPProgress :: "int \<Rightarrow> XPProgress" where
  "getXPProgress xp =
     (let level = calculateLevel xp;
          currentLevelXP = getXPForLevel level;
          nextLevelXP = getXPForLevel (level + 1);
          xpIntoLevel = xp - currentLevelXP;
          xpNeeded = nextLevelXP - currentLevelXP
      in \<lparr>current = xpIntoLevel, required = xpNeeded\<rparr>)"

definition isSameDay :: "Date \<Rightarrow> Date \<Rightarrow> bool" where
  "isSameDay date1 date2 =
     (strictEq (getFullYear date1) (getFullYear date2) \<and>
      strictEq (getMonth date1) (getMonth date2) \<and>
      strictEq (getDate date1) (getDate date2))"

definition isYesterday :: "Date \<Rightarrow> Date \<Rightarrow> bool" where
  "isYesterday date1 date2 =
     (let yesterday = setDate date2 (map_option (\<lambda>d. d - 1) (getDate date2))
      in isSameDay date1 yesterday)"

text \<open>
  \<^verbatim>\<open>getWeekStart\<close> copies the date, moves it to the Monday of its week with
  \<^verbatim>\<open>setDate\<close> and clears the time of day.  On an Invalid Date every step yields NaN
  or an Invalid Date again.
\<close>

definition weekStartCivil :: "civil \<Rightarrow> civil" where
  "weekStartCivil d =
     (let day = weekday d;
          diff = int (mday d) - day + (if day = 0 then - 6 else 1)
      in (setDateCivil d diff)\<lparr>msOfDay := 0\<rparr>)"

definition getWeekStart :: "Date \<Rightarrow> Date" where
  "getWeekStart date =
     (case date of InvalidDate \<Rightarrow> InvalidDate | ValidDate d \<Rightarrow> ValidDate (weekStartCivil d))"

definition isSameWeek :: "Date \<Rightarrow> Date \<Rightarrow> bool" where
  "isSameWeek date reference =
     (let weekStart1 = getWeekStart date;
          weekStart2 = getWeekStart reference
      in isSameDay weekStart1 weekStart2)"

record StreakResult =
  newStreak :: int
  isNewDay :: bool

text \<open>
  \<^verbatim>\<open>!lastEntryDate\<close> holds for \<^verbatim>\<open>null\<close> and for the empty string.
\<close>

definition calculateStreak :: "host \<Rightarrow> string option \<Rightarrow> int \<Rightarrow> Date \<Rightarrow> StreakResult" where
  "calculateStreak h lastEntryDate currentStreak entryDate =
     (case lastEntryDate of
        None \<Rightarrow> \<lparr>newStreak = 1, isNewDay = True\<rparr>
      | Some l \<Rightarrow>
          if l = [] then \<lparr>newStreak = 1, isNewDay = True\<rparr>
          else
            let lastDate = newDate h l;
                today = entryDate
            in if isSameDay lastDate today then \<lparr>newStreak = currentStreak, isNewDay = False\<rparr>
               else if isYesterday lastDate today then \<lparr>newStreak = currentStreak + 1, isNewDay = True\<rparr>
               else \<lparr>newStreak = 1, isNewDay = True\<rparr>)"


text \<open>
  \<^verbatim>\<open>toLowerCase\<close> on the letters A to Z; other characters are left as they are.
\<close>

definition lowerChar :: "char \<Rightarrow> char" where
  "lowerChar c =
     (if 65 \<le> (of_char c :: nat) \<and> (of_char c :: nat) \<le> 90
      then char_of ((of_char c :: nat) + 32) else c)"

definition toLowerCase :: "string \<Rightarrow> string" where
  "toLowerCase s = map lowerChar s"

section \<open>Types\<close>

text \<open>
  Titles, descriptions and icons are display texts that no operation reads or writes;
  the records keep the fields the engine works with.
\<close>

record JournalEntry =
  e_id :: string
  date :: string
  tags :: "string list option"
  focusMinutes :: "int option"
  focusLevel :: "int option"

datatype AchievementId = StreakWarrior | MathMastery | DeepFocus | ConsistencyKing

record Achievement =
  a_id :: AchievementId
  requirement :: int
  a_progress :: int
  a_unlocked :: bool
  unlockedAt :: "string option"

datatype UnlockId = DarkMode | Themes | AdvancedStats

record Unlock =
  u_id :: UnlockId
  requiredLevel :: int
  u_unlocked :: bool

datatype QuestType = Entries | Tags | Focus | Streak

record Quest =
  q_id :: string
  target :: int
  progress :: int
  rewardXP :: int
  completed :: bool
  claimed :: bool
  qtype :: QuestType
  typeValue :: "string option"
  resetWeekly :: "bool option"
  weekStarted :: "string option"

record GamificationState =
  xp :: int
  totalEntries :: int
  totalFocusMinutes :: int
  mathTaggedEntries :: int
  streak :: int
  lastEntryDate :: "string option"
  longestStreak :: int
  achievements :: "AchievementId \<Rightarrow> Achievement"
  unlocks :: "UnlockId \<Rightarrow> Unlock"
  quests :: "string \<rightharpoonup> Quest"
  weeklyEntriesCount :: int
  weeklyHighFocusDays :: int
  weekStartDate :: "string option"

section \<open>Constants\<close>

definition DEFAULT_ACHIEVEMENTS :: "AchievementId \<Rightarrow> Achievement" where
  "DEFAULT_ACHIEVEMENTS i =
     (case i of
        StreakWarrior \<Rightarrow>
          \<lparr>a_id = StreakWarrior, requirement = 7, a_progress = 0, a_unlocked = False,
           unlockedAt = None\<rparr>
      | MathMastery \<Rightarrow>
          \<lparr>a_id = MathMastery, requirement = 10, a_progress = 0, a_unlocked = False,
           unlockedAt = None\<rparr>
      | DeepFocus \<Rightarrow>
          \<lparr>a_id = DeepFocus, requirement = 240, a_progress = 0, a_unlocked = False,
           unlockedAt = None\<rparr>
      | ConsistencyKing \<Rightarrow>
          \<lparr>a_id = ConsistencyKing, requirement = 20, a_progress = 0, a_unlocked = False,
           unlockedAt = None\<rparr>)"

definition DEFAULT_UNLOCKS :: "UnlockId \<Rightarrow> Unlock" where
  "DEFAULT_UNLOCKS i =
     (case i of
        DarkMode \<Rightarrow> \<lparr>u_id = DarkMode, requiredLevel = 3, u_unlocked = False\<rparr>
      | Themes \<Rightarrow> \<lparr>u_id = Themes, requiredLevel = 5, u_unlocked = False\<rparr>
      | AdvancedStats \<Rightarrow> \<lparr>u_id = AdvancedStats, requiredLevel = 7, u_unlocked = False\<rparr>)"

definition weeklyEntries3 :: Quest where
  "weeklyEntries3 =
     \<lparr>q_id = ''weekly-entries-3'', target = 3, progress = 0, rewardXP = 50,
      completed = False, claimed = False, qtype = Entries, typeValue = None,
      resetWeekly = Some True, weekStarted = None\<rparr>"

definition mathTags5 :: Quest where
  "mathTags5 =
     \<lparr>q_id = ''math-tags-5'', target = 5, progress = 0, rewardXP = 75,
      completed = False, claimed = False, qtype = Tags, typeValue = Some ''math'',
      resetWeekly = Some False, weekStarted = None\<rparr>"

definition highFocus2Days :: Quest where
  "highFocus2Days =
     \<lparr>q_id = ''high-focus-2-days'', target = 2, progress = 0, rewardXP = 60,
      completed = False, claimed = False, qtype = Focus, typeValue = None,
      resetWeekly = Some True, weekStarted = None\<rparr>"

definition DEFAULT_QUESTS :: "string \<rightharpoonup> Quest" where
  "DEFAULT_QUESTS =
     [''weekly-entries-3'' \<mapsto> weeklyEntries3,
      ''math-tags-5'' \<mapsto> mathTags5,
      ''high-focus-2-days'' \<mapsto> highFocus2Days]"

definition INITIAL_STATE :: GamificationState where
  "INITIAL_STATE =
     \<lparr>xp = 0, totalEntries = 0, totalFocusMinutes = 0, mathTaggedEntries = 0,
      streak = 0, lastEntryDate = None, longestStreak = 0,
      achievements = DEFAULT_ACHIEVEMENTS, unlocks = DEFAULT_UNLOCKS,
      quests = DEFAULT_QUESTS,
      weeklyEntriesCount = 0, weeklyHighFocusDays = 0, weekStartDate = None\<rparr>"

section \<open>Achievement and unlock evaluators\<close>

record AchievementStats =
  s_streak :: int
  s_mathTaggedEntries :: int
  s_totalFocusMinutes :: int
  s_totalEntries :: int

text \<open>\<open>now\<close> is \<^verbatim>\<open>new Date().toISOString()\<close>, the time stamp of the evaluation.\<close>

definition updateAchievements ::
  "string \<Rightarrow> (AchievementId \<Rightarrow> Achievement) \<Rightarrow> AchievementStats \<Rightarrow> (AchievementId \<Rightarrow> Achievement)"
where
  "updateAchievements now achs st =
     (let updated = achs;
          updated =
            (if \<not> a_unlocked (updated StreakWarrior) then
               updated(StreakWarrior := (updated StreakWarrior)
                 \<lparr>a_progress := s_streak st,
                  a_unlocked := (7 \<le> s_streak st),
                  unlockedAt := (if 7 \<le> s_streak st then Some now else None)\<rparr>)
             else updated);
          updated =
            (if \<not> a_unlocked (updated MathMastery) then
               updated(MathMastery := (updated MathMastery)
                 \<lparr>a_progress := s_mathTaggedEntries st,
                  a_unlocked := (10 \<le> s_mathTaggedEntries st),
                  unlockedAt := (if 10 \<le> s_mathTaggedEntries st then Some now else None)\<rparr>)
             else updated);
          updated =
            (if \<not> a_unlocked (updated DeepFocus) then
               updated(DeepFocus := (updated DeepFocus)
                 \<lparr>a_progress := s_totalFocusMinutes st,
                  a_unlocked := (240 \<le> s_totalFocusMinutes st),
                  unlockedAt := (if 240 \<le> s_totalFocusMinutes st then Some now else None)\<rparr>)
             else updated);
          updated =
            (if \<not> a_unlocked (updated ConsistencyKing) then
               updated(ConsistencyKing := (updated ConsistencyKing)
                 \<lparr>a_progress := s_totalEntries st,
                  a_unlocked := (20 \<le> s_totalEntries st),
                  unlockedAt := (if 20 \<le> s_totalEntries st then Some now else None)\<rparr>)
             else updated)
      in updated)"

definition updateUnlocks :: "(UnlockId \<Rightarrow> Unlock) \<Rightarrow> int \<Rightarrow> (UnlockId \<Rightarrow> Unlock)" where
  "updateUnlocks uls level =
     (let updated = uls;
          updated =
            (if \<not> u_unlocked (updated DarkMode) \<and> 3 \<le> level
             then updated(DarkMode := (updated DarkMode)\<lparr>u_unlocked := True\<rparr>) else updated);
          updated =
            (if \<not> u_unlocked (updated Themes) \<and> 5 \<le> level
             then updated(Themes := (updated Themes)\<lparr>u_unlocked := True\<rparr>) else updated);
          updated =
            (if \<not> u_unlocked (updated AdvancedStats) \<and> 7 \<le> level
             then updated(AdvancedStats := (updated AdvancedStats)\<lparr>u_unlocked := True\<rparr>)
             else updated)
      in updated)"

section \<open>The store\<close>

text \<open>
  The state lives in a zustand store.  \<^verbatim>\<open>set(fn)\<close> reads the current state, applies
  \<open>fn\<close> and commits the result: subscribers are notified and the persistence middleware
  writes the snapshot, at every call.  The store is modelled by its current state together
  with the list of snapshots committed so far, oldest first.
\<close>

record store =
  state :: GamificationState
  commits :: "GamificationState list"

definition setState :: "(GamificationState \<Rightarrow> GamificationState) \<Rightarrow> store \<Rightarrow> store" where
  "setState fn st = (let s' = fn (state st) in \<lparr>state = s', commits = commits st @ [s']\<rparr>)"

section \<open>Actions\<close>

definition addXP :: "int \<Rightarrow> store \<Rightarrow> store" where
  "addXP amount st =
     (if amount \<le> 0 then st
      else setState (\<lambda>s.
             let newXP = xp s + amount;
                 newLevel = calculateLevel newXP;
                 updatedUnlocks = updateUnlocks (unlocks s) newLevel
             in s\<lparr>xp := newXP, unlocks := updatedUnlocks\<rparr>) st)"

definition updateStreak :: "host \<Rightarrow> string \<Rightarrow> store \<Rightarrow> store" where
  "updateStreak h dateISOString st =
     setState (\<lambda>s.
       let entryDate = newDate h dateISOString;
           r = calculateStreak h (lastEntryDate s) (streak s) entryDate;
           newLongestStreak = max (longestStreak s) (newStreak r)
       in s\<lparr>streak := newStreak r, lastEntryDate := Some dateISOString,
            longestStreak := newLongestStreak\<rparr>) st"

definition resetStreak :: "store \<Rightarrow> store" where
  "resetStreak st = setState (\<lambda>s. s\<lparr>streak := 0\<rparr>) st"

text \<open>
  \<open>now\<close> is the reading of the clock (\<^verbatim>\<open>new Date()\<close>), a valid date.
  \<^verbatim>\<open>if (state.weekStartDate)\<close> holds for a string that is neither \<^verbatim>\<open>null\<close> nor empty.
\<close>

definition resetWeeklyQuestsUpdate :: "host \<Rightarrow> civil \<Rightarrow> GamificationState \<Rightarrow> GamificationState" where
  "resetWeeklyQuestsUpdate h now s =
     (let weekStart = toISOString h (weekStartCivil now);
          stale = (case weekStartDate s of
                     None \<Rightarrow> False
                   | Some w \<Rightarrow> w \<noteq> [] \<and> \<not> isSameWeek (newDate h w) (ValidDate now))
      in if stale then
           s\<lparr>quests := (\<lambda>questId. map_option (\<lambda>quest.
                  if resetWeekly quest = Some True
                  then quest\<lparr>progress := 0, completed := False, claimed := False,
                             weekStarted := Some weekStart\<rparr>
                  else quest) (quests s questId)),
              weekStartDate := Some weekStart,
              weeklyEntriesCount := 0,
              weeklyHighFocusDays := 0\<rparr>
         else s\<lparr>weekStartDate := Some weekStart\<rparr>)"

definition resetWeeklyQuests :: "host \<Rightarrow> civil \<Rightarrow> store \<Rightarrow> store" where
  "resetWeeklyQuests h now st = setState (resetWeeklyQuestsUpdate h now) st"

text \<open>
  The focus level of an entry: \<^verbatim>\<open>entry.focusLevel ?? (entry.focusMinutes ?
  Math.round(entry.focusMinutes / 6) : 5)\<close>.  \<^verbatim>\<open>Math.round\<close> rounds a half upwards, so
  on whole minutes it is \<open>(m + 3) div 6\<close>.
\<close>

definition derivedFocusLevel :: "JournalEntry \<Rightarrow> int" where
  "derivedFocusLevel entry =
     (case focusLevel entry of
        Some l \<Rightarrow> l
      | None \<Rightarrow> (case focusMinutes entry of
                   None \<Rightarrow> 5
                 | Some m \<Rightarrow> if m \<noteq> 0 then (m + 3) div 6 else 5))"

definition hasTag :: "JournalEntry \<Rightarrow> string \<Rightarrow> bool" where
  "hasTag entry v =
     (case tags entry of None \<Rightarrow> False
      | Some ts \<Rightarrow> list_ex (\<lambda>tag. toLowerCase tag = toLowerCase v) ts)"

text \<open>
  The body of the loop over the quests in \<^verbatim>\<open>_updateQuests\<close>; \<open>isNewDay'\<close> is the
  local \<^verbatim>\<open>isNewDay\<close> of \<^verbatim>\<open>_updateQuests\<close>.
\<close>

definition updateQuest ::
  "host \<Rightarrow> GamificationState \<Rightarrow> JournalEntry \<Rightarrow> Date \<Rightarrow> bool \<Rightarrow> int \<Rightarrow> int \<Rightarrow> Quest \<Rightarrow> Quest"
where
  "updateQuest h s entry entryDate isNewDay' newWeeklyEntriesCount newWeeklyHighFocusDays quest =
     (if completed quest then quest
      else
        let newProgress =
              (case qtype quest of
                 Entries \<Rightarrow>
                   if resetWeekly quest = Some True then newWeeklyEntriesCount
                   else totalEntries s + (if isNewDay' then 1 else 0)
               | Tags \<Rightarrow>
                   (case typeValue quest of
                      None \<Rightarrow> progress quest
                    | Some v \<Rightarrow>
                        if v \<noteq> [] \<and> hasTag entry v \<and> isNewDay' then progress quest + 1
                        else progress quest)
               | Focus \<Rightarrow>
                   if resetWeekly quest = Some True then newWeeklyHighFocusDays
                   else if 7 \<le> derivedFocusLevel entry \<and> isNewDay' then progress quest + 1
                   else progress quest
               | Streak \<Rightarrow>
                   newStreak (calculateStreak h (lastEntryDate s) (streak s) entryDate));
            isNowCompleted = (target quest \<le> newProgress)
        in quest\<lparr>progress := min newProgress (target quest), completed := isNowCompleted\<rparr>)"

definition updateQuestsUpdate ::
  "host \<Rightarrow> civil \<Rightarrow> JournalEntry \<Rightarrow> GamificationState \<Rightarrow> GamificationState"
where
  "updateQuestsUpdate h now entry s =
     (let entryDate = newDate h (date entry);
          isNewDay' = (case lastEntryDate s of
                        None \<Rightarrow> True
                      | Some l \<Rightarrow> l = [] \<or> \<not> isSameDay (newDate h l) entryDate);
          isCurrentWeek = isSameWeek entryDate (ValidDate now);
          newWeeklyEntriesCount =
            (if isNewDay' \<and> isCurrentWeek then weeklyEntriesCount s + 1
             else weeklyEntriesCount s);
          newWeeklyHighFocusDays =
            (if isNewDay' \<and> isCurrentWeek \<and> 7 \<le> derivedFocusLevel entry
             then weeklyHighFocusDays s + 1 else weeklyHighFocusDays s)
      in s\<lparr>quests := (\<lambda>questId. map_option
                (updateQuest h s entry entryDate isNewDay' newWeeklyEntriesCount
                   newWeeklyHighFocusDays) (quests s questId)),
           weeklyEntriesCount := newWeeklyEntriesCount,
           weeklyHighFocusDays := newWeeklyHighFocusDays\<rparr>)"

definition updateQuests :: "host \<Rightarrow> civil \<Rightarrow> JournalEntry \<Rightarrow> store \<Rightarrow> store" where
  "updateQuests h now entry st = setState (updateQuestsUpdate h now entry) st"

text \<open>
  \<^verbatim>\<open>_claimQuest\<close> reads the quest from the current state, commits the claimed flag
  and then calls \<^verbatim>\<open>_addXP\<close>.  The commit re-reads the quest, which is present then.
\<close>

definition claimQuest :: "string \<Rightarrow> store \<Rightarrow> store" where
  "claimQuest questId st =
     (case quests (state st) questId of
        None \<Rightarrow> st
      | Some quest \<Rightarrow>
          if \<not> completed quest \<or> claimed quest then st
          else
            addXP (rewardXP quest)
              (setState (\<lambda>s. s\<lparr>quests := (quests s)(questId :=
                   map_option (\<lambda>q. q\<lparr>claimed := True\<rparr>) (quests s questId))\<rparr>) st))"

text \<open>
  The function \<^verbatim>\<open>_registerEntry\<close> passes to \<^verbatim>\<open>set\<close>.  \<^verbatim>\<open>entry.focusMinutes || 0\<close>
  and \<^verbatim>\<open>if (entry.focusMinutes)\<close> treat a missing value and 0 alike.
\<close>

definition registerEntryUpdate ::
  "host \<Rightarrow> civil \<Rightarrow> JournalEntry \<Rightarrow> GamificationState \<Rightarrow> GamificationState"
where
  "registerEntryUpdate h now entry s =
     (let entryDate = newDate h (date entry);
          r = calculateStreak h (lastEntryDate s) (streak s) entryDate;
          newTotalEntries = (if isNewDay r then totalEntries s + 1 else totalEntries s);
          hasMathTag = hasTag entry ''math'';
          newMathTaggedEntries =
            (if hasMathTag \<and> isNewDay r then mathTaggedEntries s + 1 else mathTaggedEntries s);
          newTotalFocusMinutes =
            totalFocusMinutes s + (case focusMinutes entry of None \<Rightarrow> 0 | Some m \<Rightarrow> m);
          xpReward = 0;
          xpReward =
            (if isNewDay r
             then (xpReward + 10) + (if streak s < newStreak r then newStreak r * 2 else 0)
             else xpReward);
          xpReward =
            (case focusMinutes entry of
               None \<Rightarrow> xpReward
             | Some m \<Rightarrow> if m \<noteq> 0 then xpReward + m div 5 else xpReward);
          newXP = xp s + xpReward;
          newLevel = calculateLevel newXP;
          newLongestStreak = max (longestStreak s) (newStreak r);
          updatedAchievements =
            updateAchievements (toISOString h now) (achievements s)
              \<lparr>s_streak = newStreak r, s_mathTaggedEntries = newMathTaggedEntries,
               s_totalFocusMinutes = newTotalFocusMinutes, s_totalEntries = newTotalEntries\<rparr>;
          updatedUnlocks = updateUnlocks (unlocks s) newLevel
      in s\<lparr>xp := newXP,
           streak := newStreak r,
           lastEntryDate := Some (date entry),
           longestStreak := newLongestStreak,
           totalEntries := newTotalEntries,
           mathTaggedEntries := newMathTaggedEntries,
           totalFocusMinutes := newTotalFocusMinutes,
           achievements := updatedAchievements,
           unlocks := updatedUnlocks\<rparr>)"

text \<open>
  \<^verbatim>\<open>_registerEntry\<close> calls \<^verbatim>\<open>_resetWeeklyQuests\<close>, then \<^verbatim>\<open>set\<close>, then
  \<^verbatim>\<open>_updateQuests\<close>.  Each of the three reads the clock on its own: \<open>t1\<close>, \<open>t2\<close>
  and \<open>t3\<close> are the three readings.
\<close>

definition registerEntry ::
  "host \<Rightarrow> civil \<Rightarrow> civil \<Rightarrow> civil \<Rightarrow> JournalEntry \<Rightarrow> store \<Rightarrow> store"
where
  "registerEntry h t1 t2 t3 entry st =
     (let st1 = resetWeeklyQuests h t1 st;
          st2 = setState (registerEntryUpdate h t2 entry) st1
      in updateQuests h t3 entry st2)"

definition resetState :: "store \<Rightarrow> store" where
  "resetState st = setState (\<lambda>s. INITIAL_STATE) st"

text \<open>
  The two effects the hook runs when it is mounted: a streak whose last entry is neither
  of today nor of yesterday is set to 0, and the weekly quests are checked.
\<close>

definition checkStreakOnMount :: "host \<Rightarrow> civil \<Rightarrow> store \<Rightarrow> store" where
  "checkStreakOnMount h now st =
     (case lastEntryDate (state st) of
        None \<Rightarrow> st
      | Some l \<Rightarrow>
          if l \<noteq> [] \<and> 0 < streak (state st) then
            let lastDate = newDate h l;
                today = ValidDate now;
                yesterday = setDate today (map_option (\<lambda>d. d - 1) (getDate today))
            in if \<not> isSameDay lastDate today \<and> \<not> isSameDay lastDate yesterday
               then setState (\<lambda>s. s\<lparr>streak := 0\<rparr>) st
               else st
          else st)"

section \<open>The mutators of the hook\<close>

datatype mutator =
    AddXP int
  | RegisterEntry civil civil civil JournalEntry
  | ClaimQuest string
  | ResetStreak
  | ResetWeeklyQuests civil
  | ResetState
  | UpdateQuestsOnEntry civil JournalEntry
  | UpdateStreakOnEntry string
  | Mount civil civil

fun run :: "host \<Rightarrow> mutator \<Rightarrow> store \<Rightarrow> store" where
  "run h (AddXP amount) st = addXP amount st"
| "run h (RegisterEntry t1 t2 t3 entry) st = registerEntry h t1 t2 t3 entry st"
| "run h (ClaimQuest questId) st = claimQuest questId st"
| "run h ResetStreak st = resetStreak st"
| "run h (ResetWeeklyQuests now) st = resetWeeklyQuests h now st"
| "run h ResetState st = resetState st"
| "run h (UpdateQuestsOnEntry now entry) st = updateQuests h now entry st"
| "run h (UpdateStreakOnEntry dateISOString) st = updateStreak h dateISOString st"
| "run h (Mount t1 t2) st = resetWeeklyQuests h t2 (checkStreakOnMount h t1 st)"

fun runAll :: "host \<Rightarrow> mutator list \<Rightarrow> store \<Rightarrow> store" where
  "runAll h [] st = st"
| "runAll h (m # ms) st = runAll h ms (run h m st)"

section \<open>A host in the UTC time zone\<close>

text \<open>
  For running the engine on concrete entries: a host whose local time is UTC and whose
  parser reads the format that \<^verbatim>\<open>toISOString\<close> writes,
  \<^verbatim>\<open>YYYY-MM-DDTHH:mm:ss.sssZ\<close> with a year from 0000 to 9999; every other string is
  an Invalid Date for it.
\<close>

fun digitsValue :: "nat \<Rightarrow> string \<Rightarrow> nat option" where
  "digitsValue acc [] = Some acc"
| "digitsValue acc (c # cs) =
     (if 48 \<le> (of_char c :: nat) \<and> (of_char c :: nat) \<le> 57
      then digitsValue (acc * 10 + ((of_char c :: nat) - 48)) cs else None)"

definition field :: "nat \<Rightarrow> nat \<Rightarrow> string \<Rightarrow> nat option" where
  "field pos len s = digitsValue 0 (take len (drop pos s))"

definition utcFields :: "nat \<Rightarrow> nat \<Rightarrow> nat \<Rightarrow> nat \<Rightarrow> nat \<Rightarrow> nat \<Rightarrow> nat \<Rightarrow> Date" where
  "utcFields y mo d hh mi ss ms =
     (if 1 \<le> mo \<and> mo \<le> 12 \<and> 1 \<le> d \<and> d \<le> daysInMonth (int y) (mo - 1) \<and>
         hh < 24 \<and> mi < 60 \<and> ss < 60
      then ValidDate \<lparr>year = int y, month = mo - 1, mday = d,
             msOfDay = ((hh * 60 + mi) * 60 + ss) * 1000 + ms\<rparr>
      else InvalidDate)"

definition utcParse :: "string \<Rightarrow> Date" where
  "utcParse s =
     (if length s = 24 \<and> s ! 4 = CHR ''-'' \<and> s ! 7 = CHR ''-'' \<and> s ! 10 = CHR ''T'' \<and>
         s ! 13 = CHR '':'' \<and> s ! 16 = CHR '':'' \<and> s ! 19 = CHR ''.'' \<and> s ! 23 = CHR ''Z''
      then
        (case field 0 4 s of None \<Rightarrow> InvalidDate | Some y \<Rightarrow>
         case field 5 2 s of None \<Rightarrow> InvalidDate | Some mo \<Rightarrow>
         case field 8 2 s of None \<Rightarrow> InvalidDate | Some d \<Rightarrow>
         case field 11 2 s of None \<Rightarrow> InvalidDate | Some hh \<Rightarrow>
         case field 14 2 s of None \<Rightarrow> InvalidDate | Some mi \<Rightarrow>
         case field 17 2 s of None \<Rightarrow> InvalidDate | Some ss \<Rightarrow>
         case field 20 3 s of None \<Rightarrow> InvalidDate | Some ms \<Rightarrow>
           utcFields y mo d hh mi ss ms)
      else InvalidDate)"

fun pad :: "nat \<Rightarrow> nat \<Rightarrow> string" where
  "pad 0 n = []"
| "pad (Suc k) n = pad k (n div 10) @ [char_of (48 + n mod 10)]"

definition utcISOString :: "civil \<Rightarrow> string" where
  "utcISOString c =
     pad 4 (nat (year c)) @ ''-'' @ pad 2 (month c + 1) @ ''-'' @ pad 2 (mday c) @ ''T'' @
     pad 2 (msOfDay c div 3600000) @ '':'' @ pad 2 (msOfDay c div 60000 mod 60) @ '':'' @
     pad 2 (msOfDay c div 1000 mod 60) @ ''.'' @ pad 3 (msOfDay c mod 1000) @ ''Z''"

definition utcHost :: host where
  "utcHost = \<lparr>parseDate = utcParse, toISOString = utcISOString\<rparr>"

definition newStore :: store where
  "newStore = \<lparr>state = INITIAL_STATE, commits = []\<rparr>"

section \<open>Notions of the specification\<close>

text \<open>The calendar day of a date, and the day after a calendar day.\<close>

definition calendarDay :: "civil \<Rightarrow> int \<times> nat \<times> nat" where
  "calendarDay c = (year c, month c, mday c)"

fun nextCalendarDay :: "int \<times> nat \<times> nat \<Rightarrow> int \<times> nat \<times> nat" where
  "nextCalendarDay (y, m, d) =
     (if d < daysInMonth y m then (y, m, d + 1)
      else if m < 11 then (y, m + 1, 1)
      else (y + 1, 0, 1))"

definition previousCalendarDay :: "int \<times> nat \<times> nat \<Rightarrow> int \<times> nat \<times> nat" where
  "previousCalendarDay ymd =
     (case ymd of (y, m, d) \<Rightarrow>
        if 1 < d then (y, m, d - 1)
        else (prevMonthYear y m, prevMonth m, daysInMonth (prevMonthYear y m) (prevMonth m)))"

text \<open>The quest invariant of the specification.\<close>

definition questOk :: "Quest \<Rightarrow> bool" where
  "questOk q =
     (0 \<le> progress q \<and> progress q \<le> target q \<and>
      (completed q \<longleftrightarrow> target q \<le> progress q) \<and>
      (claimed q \<longrightarrow> completed q))"

text \<open>
  What the operations rely on to keep it: targets are positive and the counters that feed
  a quest's progress are not negative.
\<close>

definition engineInv :: "GamificationState \<Rightarrow> bool" where
  "engineInv s =
     ((\<forall>questId q. quests s questId = Some q \<longrightarrow> questOk q \<and> 0 < target q) \<and>
      0 \<le> weeklyEntriesCount s \<and> 0 \<le> weeklyHighFocusDays s \<and>
      0 \<le> totalEntries s \<and> 0 \<le> streak s)"

text \<open>What keeps the streak below the longest streak.\<close>

definition streakInv :: "GamificationState \<Rightarrow> bool" where
  "streakInv s = (streak s \<le> longestStreak s \<and> 0 \<le> longestStreak s)"

text \<open>
  The transaction the specification describes for \<^verbatim>\<open>registerEntry\<close>: the weekly
  reset check and the entry's updates are derived from one read of the state and
  committed as one snapshot, and the quest update follows as a second transaction.
\<close>

definition registerEntryAtomic ::
  "host \<Rightarrow> civil \<Rightarrow> civil \<Rightarrow> civil \<Rightarrow> JournalEntry \<Rightarrow> store \<Rightarrow> store"
where
  "registerEntryAtomic h t1 t2 t3 entry st =
     updateQuests h t3 entry
       (setState (\<lambda>s. registerEntryUpdate h t2 entry (resetWeeklyQuestsUpdate h t1 s)) st)"

section \<open>Example data\<close>

text \<open>
  Entries in the week of Monday, 1 January 2024, with the clock read at the moment the
  entry is made, as the journal does (\<^verbatim>\<open>new Date().toISOString()\<close>).
\<close>

definition morning :: civil where
  "morning = \<lparr>year = 2024, month = 0, mday = 3, msOfDay = 28800000\<rparr>"

definition noon :: civil where
  "noon = \<lparr>year = 2024, month = 0, mday = 3, msOfDay = 43200000\<rparr>"

definition morningEntry :: JournalEntry where
  "morningEntry =
     \<lparr>e_id = ''test-1'', date = ''2024-01-03T08:00:00.000Z'', tags = Some [''tech''],
      focusMinutes = Some 240, focusLevel = Some 8\<rparr>"

definition noonEntry :: JournalEntry where
  "noonEntry =
     \<lparr>e_id = ''test-2'', date = ''2024-01-03T12:00:00.000Z'', tags = Some [''Math''],
      focusMinutes = Some 30, focusLevel = None\<rparr>"

definition afterMorning :: store where
  "afterMorning = registerEntry utcHost morning morning morning morningEntry newStore"

text \<open>A store in which the quest \<^verbatim>\<open>math-tags-5\<close> is completed and not yet claimed.\<close>

definition claimableStore :: store where
  "claimableStore =
     \<lparr>state = INITIAL_STATE\<lparr>quests := DEFAULT_QUESTS(''math-tags-5'' \<mapsto>
                 mathTags5\<lparr>progress := 5, completed := True\<rparr>)\<rparr>,
      commits = []\<rparr>"

section \<open>Basic facts\<close>

lemma state_setState [simp]: "state (setState fn st) = fn (state st)"
  by (simp add: setState_def Let_def)

lemma commits_setState [simp]: "commits (setState fn st) = commits st @ [fn (state st)]"
  by (simp add: setState_def Let_def)

lemma normalizeDay_in_range:
  "1 \<le> n \<Longrightarrow> n \<le> int (daysInMonth y m) \<Longrightarrow> normalizeDay y m n = (y, m, nat n)"
  by (subst normalizeDay.simps) simp

lemma normalizeDay_zero:
  "normalizeDay y m 0 =
     (prevMonthYear y m, prevMonth m, daysInMonth (prevMonthYear y m) (prevMonth m))"
proof -
  have "1 \<le> int (daysInMonth (prevMonthYear y m) (prevMonth m))"
    by (simp add: daysInMonth_def)
  then show ?thesis
    by (subst normalizeDay.simps) (simp add: normalizeDay_in_range)
qed

lemma isSameDay_valid:
  "isSameDay (ValidDate a) (ValidDate b) = (calendarDay a = calendarDay b)"
  by (auto simp add: isSameDay_def getFullYear_def getMonth_def getDate_def strictEq_def
        calendarDay_def)

lemma isSameDay_invalid [simp]:
  "isSameDay InvalidDate d = False" "isSameDay d InvalidDate = False"
  by (simp_all add: isSameDay_def getFullYear_def strictEq_def split: option.splits)

lemma newDate_empty [simp]: "newDate h [] = InvalidDate"
  by (simp add: newDate_def)

lemma yesterday_civil:
  assumes "validCivil b"
  shows "calendarDay (setDateCivil b (int (mday b) - 1)) = previousCalendarDay (calendarDay b)"
proof (cases "1 < mday b")
  case True
  with assms have "normalizeDay (year b) (month b) (int (mday b) - 1)
      = (year b, month b, mday b - 1)"
    by (simp add: normalizeDay_in_range validCivil_def nat_diff_distrib')
  with True show ?thesis
    by (simp add: setDateCivil_def calendarDay_def previousCalendarDay_def)
next
  case False
  with assms have "mday b = 1"
    by (simp add: validCivil_def)
  then show ?thesis
    by (simp add: setDateCivil_def calendarDay_def previousCalendarDay_def normalizeDay_zero)
qed

lemma previous_iff_next:
  assumes a: "1 \<le> da" "da \<le> daysInMonth ya ma" "ma < 12"
    and b: "1 \<le> db" "db \<le> daysInMonth yb mb" "mb < 12"
  shows "((ya, ma, da) = previousCalendarDay (yb, mb, db))
       = ((yb, mb, db) = nextCalendarDay (ya, ma, da))"
proof (cases "1 < db")
  case True
  with a b show ?thesis
    by (auto simp add: previousCalendarDay_def)
next
  case False
  with b have db: "db = 1" by simp
  show ?thesis
  proof (cases "da < daysInMonth ya ma")
    case True
    with db a show ?thesis
      by (auto simp add: previousCalendarDay_def)
  next
    case False
    with a have da: "da = daysInMonth ya ma" by simp
    from b(3) have "mb = 0 \<or> (0 < mb \<and> mb < 12)" by auto
    moreover from a(3) have "ma < 11 \<or> ma = 11" by auto
    ultimately show ?thesis using db da
      by (auto simp add: previousCalendarDay_def prevMonth_def prevMonthYear_def)
  qed
qed

lemma isYesterday_iff_next:
  assumes "validCivil a" "validCivil b"
  shows "isYesterday (ValidDate a) (ValidDate b) = (calendarDay b = nextCalendarDay (calendarDay a))"
proof -
  have "isYesterday (ValidDate a) (ValidDate b)
      = (calendarDay a = calendarDay (setDateCivil b (int (mday b) - 1)))"
    by (simp add: isYesterday_def setDate_def getDate_def isSameDay_valid)
  also have "\<dots> = (calendarDay a = previousCalendarDay (calendarDay b))"
    using assms(2) by (simp add: yesterday_civil)
  also have "\<dots> = (calendarDay b = nextCalendarDay (calendarDay a))"
    using assms previous_iff_next [of "mday a" "year a" "month a" "mday b" "year b" "month b"]
    by (simp add: calendarDay_def validCivil_def)
  finally show ?thesis .
qed

lemma resetWeeklyQuestsUpdate_frame [simp]:
  "xp (resetWeeklyQuestsUpdate h now s) = xp s"
  "totalEntries (resetWeeklyQuestsUpdate h now s) = totalEntries s"
  "totalFocusMinutes (resetWeeklyQuestsUpdate h now s) = totalFocusMinutes s"
  "mathTaggedEntries (resetWeeklyQuestsUpdate h now s) = mathTaggedEntries s"
  "streak (resetWeeklyQuestsUpdate h now s) = streak s"
  "lastEntryDate (resetWeeklyQuestsUpdate h now s) = lastEntryDate s"
  "longestStreak (resetWeeklyQuestsUpdate h now s) = longestStreak s"
  "achievements (resetWeeklyQuestsUpdate h now s) = achievements s"
  "unlocks (resetWeeklyQuestsUpdate h now s) = unlocks s"
  by (simp_all add: resetWeeklyQuestsUpdate_def Let_def)

lemma updateQuestsUpdate_frame [simp]:
  "xp (updateQuestsUpdate h now entry s) = xp s"
  "totalEntries (updateQuestsUpdate h now entry s) = totalEntries s"
  "totalFocusMinutes (updateQuestsUpdate h now entry s) = totalFocusMinutes s"
  "mathTaggedEntries (updateQuestsUpdate h now entry s) = mathTaggedEntries s"
  "streak (updateQuestsUpdate h now entry s) = streak s"
  "lastEntryDate (updateQuestsUpdate h now entry s) = lastEntryDate s"
  "longestStreak (updateQuestsUpdate h now entry s) = longestStreak s"
  "achievements (updateQuestsUpdate h now entry s) = achievements s"
  "unlocks (updateQuestsUpdate h now entry s) = unlocks s"
  "weekStartDate (updateQuestsUpdate h now entry s) = weekStartDate s"
  by (simp_all add: updateQuestsUpdate_def Let_def)

lemma state_registerEntry:
  "state (registerEntry h t1 t2 t3 entry st) =
     updateQuestsUpdate h t3 entry
       (registerEntryUpdate h t2 entry (resetWeeklyQuestsUpdate h t1 (state st)))"
  by (simp add: registerEntry_def updateQuests_def resetWeeklyQuests_def Let_def)

lemma registerEntryUpdate_fields:
  "streak (registerEntryUpdate h now entry s)
     = newStreak (calculateStreak h (lastEntryDate s) (streak s) (newDate h (date entry)))"
  "lastEntryDate (registerEntryUpdate h now entry s) = Some (date entry)"
  "longestStreak (registerEntryUpdate h now entry s)
     = max (longestStreak s)
         (newStreak (calculateStreak h (lastEntryDate s) (streak s) (newDate h (date entry))))"
  "totalEntries (registerEntryUpdate h now entry s)
     = (if isNewDay (calculateStreak h (lastEntryDate s) (streak s) (newDate h (date entry)))
        then totalEntries s + 1 else totalEntries s)"
  "quests (registerEntryUpdate h now entry s) = quests s"
  "weeklyEntriesCount (registerEntryUpdate h now entry s) = weeklyEntriesCount s"
  "weeklyHighFocusDays (registerEntryUpdate h now entry s) = weeklyHighFocusDays s"
  "weekStartDate (registerEntryUpdate h now entry s) = weekStartDate s"
  by (simp_all add: registerEntryUpdate_def Let_def)

lemma calculateStreak_same_day:
  assumes "newDate h l = ValidDate a" "calendarDay a = calendarDay b"
  shows "calculateStreak h (Some l) currentStreak (ValidDate b)
    = \<lparr>newStreak = currentStreak, isNewDay = False\<rparr>"
proof -
  from assms(1) have "l \<noteq> []"
    by (auto simp add: newDate_def)
  with assms show ?thesis
    by (simp add: calculateStreak_def isSameDay_valid)
qed

lemma utc_morning:
  "newDate utcHost ''2024-01-03T08:00:00.000Z'' = ValidDate morning"
  by (simp add: newDate_def utcHost_def utcParse_def field_def utcFields_def daysInMonth_def
        morning_def)

lemma utc_noon:
  "newDate utcHost ''2024-01-03T12:00:00.000Z'' = ValidDate noon"
  by (simp add: newDate_def utcHost_def utcParse_def field_def utcFields_def daysInMonth_def
        noon_def)

lemma afterMorning_fields:
  "lastEntryDate (state afterMorning) = Some ''2024-01-03T08:00:00.000Z''"
  "streak (state afterMorning) = 1"
  "totalEntries (state afterMorning) = 1"
  "totalFocusMinutes (state afterMorning) = 240"
  "mathTaggedEntries (state afterMorning) = 0"
  "xp (state afterMorning) = 60"
  "longestStreak (state afterMorning) = 1"
  by (simp_all add: afterMorning_def state_registerEntry registerEntryUpdate_def Let_def
        newStore_def INITIAL_STATE_def calculateStreak_def morningEntry_def hasTag_def
        toLowerCase_def lowerChar_def)

lemma isSameDay_refl: "isSameDay (ValidDate c) (ValidDate c)"
  by (simp add: isSameDay_valid)

lemma quest_step_after_commit:
  assumes "newDate h (date entry) = ValidDate c"
  shows "weeklyEntriesCount (state (registerEntry h t1 t2 t3 entry st))
           = weeklyEntriesCount (resetWeeklyQuestsUpdate h t1 (state st))"
    and "weeklyHighFocusDays (state (registerEntry h t1 t2 t3 entry st))
           = weeklyHighFocusDays (resetWeeklyQuestsUpdate h t1 (state st))"
proof -
  from assms have "date entry \<noteq> []"
    by (auto simp add: newDate_def)
  with assms show
    "weeklyEntriesCount (state (registerEntry h t1 t2 t3 entry st))
           = weeklyEntriesCount (resetWeeklyQuestsUpdate h t1 (state st))"
    "weeklyHighFocusDays (state (registerEntry h t1 t2 t3 entry st))
           = weeklyHighFocusDays (resetWeeklyQuestsUpdate h t1 (state st))"
    by (simp_all add: state_registerEntry updateQuestsUpdate_def Let_def
          registerEntryUpdate_fields isSameDay_refl)
qed

lemma resetWeekly_fresh:
  "weekStartDate s = None \<Longrightarrow>
     resetWeeklyQuestsUpdate h now s = s\<lparr>weekStartDate := Some (toISOString h (weekStartCivil now))\<rparr>"
  by (simp add: resetWeeklyQuestsUpdate_def Let_def)

lemma state_addXP:
  "state (addXP amount st) =
     (if amount \<le> 0 then state st
      else (state st)\<lparr>xp := xp (state st) + amount,
             unlocks := updateUnlocks (unlocks (state st)) (calculateLevel (xp (state st) + amount))\<rparr>)"
  by (simp add: addXP_def Let_def)

lemma state_claimQuest:
  "state (claimQuest questId st) =
     (case quests (state st) questId of
        None \<Rightarrow> state st
      | Some quest \<Rightarrow>
          if \<not> completed quest \<or> claimed quest then state st
          else if rewardXP quest \<le> 0
            then (state st)\<lparr>quests := (quests (state st))(questId \<mapsto> quest\<lparr>claimed := True\<rparr>)\<rparr>
            else (state st)
                   \<lparr>quests := (quests (state st))(questId \<mapsto> quest\<lparr>claimed := True\<rparr>),
                    xp := xp (state st) + rewardXP quest,
                    unlocks := updateUnlocks (unlocks (state st))
                                 (calculateLevel (xp (state st) + rewardXP quest))\<rparr>)"
  by (simp add: claimQuest_def state_addXP split: option.split)

lemma state_checkStreakOnMount:
  "state (checkStreakOnMount h now st) = state st \<or>
   state (checkStreakOnMount h now st) = (state st)\<lparr>streak := 0\<rparr>"
  by (simp add: checkStreakOnMount_def Let_def split: option.split)

lemma updateAchievements_frozen:
  "a_unlocked (achs i) \<Longrightarrow> updateAchievements now achs stats i = achs i"
  by (cases i) (simp_all add: updateAchievements_def Let_def)

lemma registerEntryUpdate_achievements:
  "achievements (registerEntryUpdate h now entry s) =
     updateAchievements (toISOString h now) (achievements s)
       \<lparr>s_streak = streak (registerEntryUpdate h now entry s),
        s_mathTaggedEntries = mathTaggedEntries (registerEntryUpdate h now entry s),
        s_totalFocusMinutes = totalFocusMinutes (registerEntryUpdate h now entry s),
        s_totalEntries = totalEntries (registerEntryUpdate h now entry s)\<rparr>"
  by (simp add: registerEntryUpdate_def Let_def)

lemma run_keeps_unlocked:
  assumes "m \<noteq> ResetState" "a_unlocked (achievements (state st) i)"
  shows "achievements (state (run h m st)) i = achievements (state st) i"
proof (cases m)
  case (AddXP amount)
  then show ?thesis by (simp add: state_addXP)
next
  case (RegisterEntry t1 t2 t3 entry)
  with assms(2) show ?thesis
    by (simp add: state_registerEntry registerEntryUpdate_achievements updateAchievements_frozen)
next
  case (ClaimQuest questId)
  then show ?thesis by (simp add: state_claimQuest state_addXP split: option.split)
next
  case ResetStreak
  then show ?thesis by (simp add: resetStreak_def)
next
  case (ResetWeeklyQuests now)
  then show ?thesis by (simp add: resetWeeklyQuests_def)
next
  case ResetState
  with assms(1) show ?thesis by simp
next
  case (UpdateQuestsOnEntry now entry)
  then show ?thesis by (simp add: updateQuests_def)
next
  case (UpdateStreakOnEntry d)
  then show ?thesis by (simp add: updateStreak_def Let_def)
next
  case (Mount t1 t2)
  then show ?thesis
    using state_checkStreakOnMount [of h t1 st]
    by (auto simp add: resetWeeklyQuests_def)
qed

lemma run_longest_mono:
  assumes "m \<noteq> ResetState"
  shows "longestStreak (state st) \<le> longestStreak (state (run h m st))"
proof (cases m)
  case (AddXP amount)
  then show ?thesis by (simp add: state_addXP)
next
  case (RegisterEntry t1 t2 t3 entry)
  then show ?thesis
    by (simp add: state_registerEntry registerEntryUpdate_fields)
next
  case (ClaimQuest questId)
  then show ?thesis by (simp add: state_claimQuest state_addXP split: option.split)
next
  case ResetStreak
  then show ?thesis by (simp add: resetStreak_def)
next
  case (ResetWeeklyQuests now)
  then show ?thesis by (simp add: resetWeeklyQuests_def)
next
  case ResetState
  with assms(1) show ?thesis by simp
next
  case (UpdateQuestsOnEntry now entry)
  then show ?thesis by (simp add: updateQuests_def)
next
  case (UpdateStreakOnEntry d)
  then show ?thesis by (simp add: updateStreak_def Let_def)
next
  case (Mount t1 t2)
  then show ?thesis
    using state_checkStreakOnMount [of h t1 st]
    by (auto simp add: resetWeeklyQuests_def)
qed

lemma run_streakInv:
  assumes "streakInv (state st)"
  shows "streakInv (state (run h m st))"
proof (cases m)
  case (AddXP amount)
  with assms show ?thesis by (simp add: state_addXP streakInv_def)
next
  case (RegisterEntry t1 t2 t3 entry)
  with assms show ?thesis
    by (auto simp add: state_registerEntry registerEntryUpdate_fields streakInv_def
          max_def)
next
  case (ClaimQuest questId)
  with assms show ?thesis
    by (simp add: state_claimQuest state_addXP streakInv_def split: option.split)
next
  case ResetStreak
  with assms show ?thesis by (simp add: resetStreak_def streakInv_def)
next
  case (ResetWeeklyQuests now)
  with assms show ?thesis by (simp add: resetWeeklyQuests_def streakInv_def)
next
  case ResetState
  then show ?thesis by (simp add: resetState_def streakInv_def INITIAL_STATE_def)
next
  case (UpdateQuestsOnEntry now entry)
  with assms show ?thesis by (simp add: updateQuests_def streakInv_def)
next
  case (UpdateStreakOnEntry d)
  with assms show ?thesis by (auto simp add: updateStreak_def Let_def streakInv_def max_def)
next
  case (Mount t1 t2)
  with assms show ?thesis
    using state_checkStreakOnMount [of h t1 st]
    by (auto simp add: resetWeeklyQuests_def streakInv_def)
qed

lemma runAll_streakInv:
  "streakInv (state st) \<Longrightarrow> streakInv (state (runAll h ms st))"
  by (induction ms arbitrary: st) (simp_all add: run_streakInv)

lemma runAll_longest_mono:
  "ResetState \<notin> set ms \<Longrightarrow> longestStreak (state st) \<le> longestStreak (state (runAll h ms st))"
proof (induction ms arbitrary: st)
  case Nil
  then show ?case by simp
next
  case (Cons m ms)
  from Cons.prems have "m \<noteq> ResetState"
    by auto
  then have "longestStreak (state st) \<le> longestStreak (state (run h m st))"
    by (rule run_longest_mono)
  also from Cons.prems have "\<dots> \<le> longestStreak (state (runAll h ms (run h m st)))"
    by (intro Cons.IH) simp
  finally show ?case by simp
qed

lemma afterMorning_deepFocus: "a_unlocked (achievements (state afterMorning) DeepFocus)"
  by (simp add: afterMorning_def state_registerEntry registerEntryUpdate_def Let_def
        updateAchievements_def morningEntry_def newStore_def INITIAL_STATE_def
        DEFAULT_ACHIEVEMENTS_def)

lemma calculateStreak_nonneg:
  "0 \<le> currentStreak \<Longrightarrow> 0 \<le> newStreak (calculateStreak h l currentStreak d)"
  by (simp add: calculateStreak_def Let_def split: option.split)

lemma updateQuest_ok:
  assumes "questOk q" "0 < target q" "0 \<le> we" "0 \<le> wh" "0 \<le> totalEntries s" "0 \<le> streak s"
  shows "questOk (updateQuest h s entry d nd we wh q) \<and>
         target (updateQuest h s entry d nd we wh q) = target q"
proof (cases "completed q")
  case True
  with assms show ?thesis
    by (simp add: updateQuest_def)
next
  case False
  define p where "p =
     (case qtype q of
        Entries \<Rightarrow> if resetWeekly q = Some True then we
                   else totalEntries s + (if nd then 1 else 0)
      | Tags \<Rightarrow> (case typeValue q of None \<Rightarrow> progress q
                 | Some v \<Rightarrow> if v \<noteq> [] \<and> hasTag entry v \<and> nd then progress q + 1
                             else progress q)
      | Focus \<Rightarrow> if resetWeekly q = Some True then wh
                 else if 7 \<le> derivedFocusLevel entry \<and> nd then progress q + 1
                 else progress q
      | Streak \<Rightarrow> newStreak (calculateStreak h (lastEntryDate s) (streak s) d))"
  have nonneg: "0 \<le> p"
    using assms calculateStreak_nonneg [of "streak s" h "lastEntryDate s" d]
    by (cases "qtype q") (auto simp add: p_def questOk_def split: option.split)
  have upd: "updateQuest h s entry d nd we wh q
      = q\<lparr>progress := min p (target q), completed := (target q \<le> p)\<rparr>"
    using False by (simp add: updateQuest_def Let_def p_def)
  from assms(1,2) False nonneg show ?thesis
    by (auto simp add: upd questOk_def min_def)
qed

lemma engineInv_map_quests:
  assumes inv: "engineInv s"
    and qs: "quests s' = (\<lambda>questId. map_option f (quests s questId))"
    and f: "\<And>q. questOk q \<Longrightarrow> 0 < target q \<Longrightarrow> questOk (f q) \<and> 0 < target (f q)"
    and counters: "0 \<le> weeklyEntriesCount s'" "0 \<le> weeklyHighFocusDays s'"
      "0 \<le> totalEntries s'" "0 \<le> streak s'"
  shows "engineInv s'"
proof -
  have "questOk q' \<and> 0 < target q'" if "quests s' questId = Some q'" for questId q'
  proof -
    from that qs obtain q where q: "quests s questId = Some q" "q' = f q"
      by auto
    from inv q(1) have "questOk q" "0 < target q"
      by (auto simp add: engineInv_def)
    with f q(2) show ?thesis
      by simp
  qed
  with counters show ?thesis
    by (simp add: engineInv_def)
qed

lemma resetQuest_ok:
  "0 < target q \<Longrightarrow>
     questOk (q\<lparr>progress := 0, completed := False, claimed := False, weekStarted := w\<rparr>)"
  by (simp add: questOk_def)

lemma engineInv_resetWeekly:
  assumes "engineInv s"
  shows "engineInv (resetWeeklyQuestsUpdate h now s)"
proof (cases "case weekStartDate s of None \<Rightarrow> False
    | Some w \<Rightarrow> w \<noteq> [] \<and> \<not> isSameWeek (newDate h w) (ValidDate now)")
  case True
  let ?f = "\<lambda>quest. if resetWeekly quest = Some True
      then quest\<lparr>progress := 0, completed := False, claimed := False,
             weekStarted := Some (toISOString h (weekStartCivil now))\<rparr>
      else quest"
  from True have upd: "resetWeeklyQuestsUpdate h now s
      = s\<lparr>quests := (\<lambda>questId. map_option ?f (quests s questId)),
           weekStartDate := Some (toISOString h (weekStartCivil now)),
           weeklyEntriesCount := 0, weeklyHighFocusDays := 0\<rparr>"
    by (simp add: resetWeeklyQuestsUpdate_def Let_def)
  show ?thesis
  proof (rule engineInv_map_quests [OF assms, where f = ?f])
    show "quests (resetWeeklyQuestsUpdate h now s) = (\<lambda>questId. map_option ?f (quests s questId))"
      by (simp add: upd)
    show "questOk (?f q) \<and> 0 < target (?f q)" if "questOk q" "0 < target q" for q
      using that by (simp add: resetQuest_ok)
    from assms show "0 \<le> weeklyEntriesCount (resetWeeklyQuestsUpdate h now s)"
      "0 \<le> weeklyHighFocusDays (resetWeeklyQuestsUpdate h now s)"
      "0 \<le> totalEntries (resetWeeklyQuestsUpdate h now s)"
      "0 \<le> streak (resetWeeklyQuestsUpdate h now s)"
      by (simp_all add: upd engineInv_def)
  qed
next
  case False
  then have "resetWeeklyQuestsUpdate h now s
      = s\<lparr>weekStartDate := Some (toISOString h (weekStartCivil now))\<rparr>"
    by (simp add: resetWeeklyQuestsUpdate_def Let_def)
  with assms show ?thesis
    by (simp add: engineInv_def)
qed

lemma engineInv_registerEntryUpdate:
  assumes "engineInv s"
  shows "engineInv (registerEntryUpdate h now entry s)"
proof -
  from assms have "0 \<le> streak s"
    by (simp add: engineInv_def)
  then have "0 \<le> newStreak (calculateStreak h (lastEntryDate s) (streak s)
      (newDate h (date entry)))"
    by (rule calculateStreak_nonneg)
  with assms show ?thesis
    by (simp add: engineInv_def registerEntryUpdate_fields)
qed

lemma engineInv_updateQuests:
  assumes "engineInv s"
  shows "engineInv (updateQuestsUpdate h now entry s)"
proof -
  define d where "d = newDate h (date entry)"
  define nd where "nd = (case lastEntryDate s of None \<Rightarrow> True
      | Some l \<Rightarrow> l = [] \<or> \<not> isSameDay (newDate h l) d)"
  define we where "we = (if nd \<and> isSameWeek d (ValidDate now) then weeklyEntriesCount s + 1
      else weeklyEntriesCount s)"
  define wh where "wh = (if nd \<and> isSameWeek d (ValidDate now) \<and> 7 \<le> derivedFocusLevel entry
      then weeklyHighFocusDays s + 1 else weeklyHighFocusDays s)"
  have upd: "updateQuestsUpdate h now entry s
      = s\<lparr>quests := (\<lambda>questId. map_option (updateQuest h s entry d nd we wh) (quests s questId)),
           weeklyEntriesCount := we, weeklyHighFocusDays := wh\<rparr>"
    by (simp only: updateQuestsUpdate_def Let_def d_def nd_def we_def wh_def)
  from assms have counters: "0 \<le> we" "0 \<le> wh" "0 \<le> totalEntries s" "0 \<le> streak s"
    by (simp_all add: engineInv_def we_def wh_def)
  show ?thesis
  proof (rule engineInv_map_quests [OF assms, where f = "updateQuest h s entry d nd we wh"])
    show "quests (updateQuestsUpdate h now entry s)
        = (\<lambda>questId. map_option (updateQuest h s entry d nd we wh) (quests s questId))"
      by (simp add: upd)
    show "questOk (updateQuest h s entry d nd we wh q) \<and>
          0 < target (updateQuest h s entry d nd we wh q)" if "questOk q" "0 < target q" for q
      using updateQuest_ok [OF that counters, of h entry d nd] that(2) by simp
    from counters show "0 \<le> weeklyEntriesCount (updateQuestsUpdate h now entry s)"
      "0 \<le> weeklyHighFocusDays (updateQuestsUpdate h now entry s)"
      "0 \<le> totalEntries (updateQuestsUpdate h now entry s)"
      "0 \<le> streak (updateQuestsUpdate h now entry s)"
      by (simp_all add: upd)
  qed
qed

lemma engineInv_claimed:
  assumes "engineInv s" "quests s questId = Some q" "completed q"
  shows "engineInv (s\<lparr>quests := (quests s)(questId \<mapsto> q\<lparr>claimed := True\<rparr>)\<rparr>)"
  using assms by (auto simp add: engineInv_def questOk_def)

lemma engineInv_initial: "engineInv INITIAL_STATE"
  by (auto simp add: engineInv_def INITIAL_STATE_def DEFAULT_QUESTS_def questOk_def
        weeklyEntries3_def mathTags5_def highFocus2Days_def split: if_splits)

lemma run_engineInv:
  assumes "engineInv (state st)"
  shows "engineInv (state (run h m st))"
proof (cases m)
  case (AddXP amount)
  with assms show ?thesis
    by (auto simp add: state_addXP engineInv_def)
next
  case (RegisterEntry t1 t2 t3 entry)
  with assms show ?thesis
    by (simp add: state_registerEntry engineInv_updateQuests engineInv_registerEntryUpdate
          engineInv_resetWeekly)
next
  case (ClaimQuest questId)
  show ?thesis
  proof (cases "quests (state st) questId")
    case None
    with assms ClaimQuest show ?thesis
      by (simp add: state_claimQuest)
  next
    case (Some q)
    show ?thesis
    proof (cases "\<not> completed q \<or> claimed q")
      case True
      with assms ClaimQuest Some show ?thesis
        by (simp add: state_claimQuest)
    next
      case False
      with assms Some have "engineInv ((state st)\<lparr>quests := (quests (state st))(questId \<mapsto>
          q\<lparr>claimed := True\<rparr>)\<rparr>)"
        by (simp add: engineInv_claimed)
      then have "engineInv ((state st)\<lparr>quests := (quests (state st))(questId \<mapsto>
          q\<lparr>claimed := True\<rparr>), xp := x, unlocks := u\<rparr>)" for x u
        by (simp add: engineInv_def)
      with \<open>engineInv ((state st)\<lparr>quests := (quests (state st))(questId \<mapsto>
          q\<lparr>claimed := True\<rparr>)\<rparr>)\<close> ClaimQuest Some False show ?thesis
        by (simp add: state_claimQuest)
    qed
  qed
next
  case ResetStreak
  with assms show ?thesis
    by (simp add: resetStreak_def engineInv_def)
next
  case (ResetWeeklyQuests now)
  with assms show ?thesis
    by (simp add: resetWeeklyQuests_def engineInv_resetWeekly)
next
  case ResetState
  then show ?thesis
    by (simp add: resetState_def engineInv_initial)
next
  case (UpdateQuestsOnEntry now entry)
  with assms show ?thesis
    by (simp add: updateQuests_def engineInv_updateQuests)
next
  case (UpdateStreakOnEntry d)
  from assms have "0 \<le> streak (state st)"
    by (simp add: engineInv_def)
  then have "0 \<le> newStreak (calculateStreak h (lastEntryDate (state st)) (streak (state st))
      (newDate h d))"
    by (rule calculateStreak_nonneg)
  with assms UpdateStreakOnEntry show ?thesis
    by (simp add: updateStreak_def Let_def engineInv_def)
next
  case (Mount t1 t2)
  from assms have "engineInv ((state st)\<lparr>streak := 0\<rparr>)"
    by (simp add: engineInv_def)
  with assms state_checkStreakOnMount [of h t1 st]
  have "engineInv (state (checkStreakOnMount h t1 st))"
    by auto
  with Mount show ?thesis
    by (simp add: resetWeeklyQuests_def engineInv_resetWeekly)
qed

lemma runAll_engineInv:
  "engineInv (state st) \<Longrightarrow> engineInv (state (runAll h ms st))"
  by (induction ms arbitrary: st) (simp_all add: run_engineInv)

section \<open>Leveling\<close>

text \<open>
  Claim C8.  For every whole number of experience points that is not negative, the level is
  the points divided by 100, rounded down (so 0 below 100 points); the threshold of a level
  is 100 times the level; and the progress within the level plus the threshold of the level
  gives the points back.
\<close>

theorem level_and_progress:
  "0 \<le> points \<Longrightarrow>
     calculateLevel points = points div 100 \<and>
     (points < 100 \<longrightarrow> calculateLevel points = 0) \<and>
     getXPForLevel level = level * 100 \<and>
     current (getXPProgress points) + getXPForLevel (calculateLevel points) = points"
  by (simp add: calculateLevel_def getXPForLevel_def getXPProgress_def Let_def)

theorem level_and_progress_witness:
  "(0::int) \<le> 250 \<and> calculateLevel 250 = 250 div 100 \<and>
   current (getXPProgress 250) + getXPForLevel (calculateLevel 250) = 250"
proof -
  have nonneg: "(0::int) \<le> 250" by simp
  from level_and_progress [OF nonneg, of 2] nonneg show ?thesis by blast
qed

section \<open>The streak calculator\<close>

text \<open>
  Claim C3.  Without a last entry date the streak calculator returns streak 1 on a new day.
  With a last entry date that the host reads as the date \<open>a\<close>, and an entry date \<open>b\<close>:
  the same calendar day keeps the streak and is not a new day; the calendar day after that
  of \<open>a\<close> adds 1 to the streak on a new day; every other day, earlier ones included, gives
  streak 1 on a new day.
\<close>

theorem calculateStreak_cases:
  "calculateStreak h None currentStreak entryDate = \<lparr>newStreak = 1, isNewDay = True\<rparr> \<and>
   (newDate h l = ValidDate a \<and> validCivil a \<and> validCivil b \<longrightarrow>
      calculateStreak h (Some l) currentStreak (ValidDate b) =
        (if calendarDay b = calendarDay a
           then \<lparr>newStreak = currentStreak, isNewDay = False\<rparr>
         else if calendarDay b = nextCalendarDay (calendarDay a)
           then \<lparr>newStreak = currentStreak + 1, isNewDay = True\<rparr>
         else \<lparr>newStreak = 1, isNewDay = True\<rparr>))"
proof (intro conjI impI)
  show "calculateStreak h None currentStreak entryDate = \<lparr>newStreak = 1, isNewDay = True\<rparr>"
    by (simp add: calculateStreak_def)
next
  assume hyp: "newDate h l = ValidDate a \<and> validCivil a \<and> validCivil b"
  then have "l \<noteq> []"
    by (auto simp add: newDate_def)
  moreover have "isSameDay (ValidDate a) (ValidDate b) = (calendarDay b = calendarDay a)"
    by (auto simp add: isSameDay_valid)
  moreover have "isYesterday (ValidDate a) (ValidDate b)
      = (calendarDay b = nextCalendarDay (calendarDay a))"
    using hyp by (simp add: isYesterday_iff_next)
  ultimately show "calculateStreak h (Some l) currentStreak (ValidDate b) =
        (if calendarDay b = calendarDay a
           then \<lparr>newStreak = currentStreak, isNewDay = False\<rparr>
         else if calendarDay b = nextCalendarDay (calendarDay a)
           then \<lparr>newStreak = currentStreak + 1, isNewDay = True\<rparr>
         else \<lparr>newStreak = 1, isNewDay = True\<rparr>)"
    using hyp by (simp add: calculateStreak_def Let_def)
qed

theorem calculateStreak_cases_witness:
  "newDate utcHost ''2024-01-31T10:00:00.000Z''
     = ValidDate \<lparr>year = 2024, month = 0, mday = 31, msOfDay = 36000000\<rparr> \<and>
   validCivil \<lparr>year = 2024, month = 0, mday = 31, msOfDay = 36000000\<rparr> \<and>
   validCivil \<lparr>year = 2024, month = 1, mday = 1, msOfDay = 0\<rparr> \<and>
   calculateStreak utcHost (Some ''2024-01-31T10:00:00.000Z'') 4
     (ValidDate \<lparr>year = 2024, month = 1, mday = 1, msOfDay = 0\<rparr>)
     = \<lparr>newStreak = 5, isNewDay = True\<rparr>"
proof -
  let ?a = "\<lparr>year = 2024, month = 0, mday = 31, msOfDay = 36000000\<rparr>"
  let ?b = "\<lparr>year = 2024, month = 1, mday = 1, msOfDay = 0\<rparr>"
  have parsed: "newDate utcHost ''2024-01-31T10:00:00.000Z'' = ValidDate ?a"
    by (simp add: newDate_def utcHost_def utcParse_def field_def utcFields_def daysInMonth_def)
  have valid: "validCivil ?a" "validCivil ?b"
    by (simp_all add: validCivil_def daysInMonth_def isLeapYear_def)
  from calculateStreak_cases [of utcHost 4 "ValidDate ?b" "''2024-01-31T10:00:00.000Z''" ?a ?b]
    parsed valid
  show ?thesis
    by (simp add: calendarDay_def daysInMonth_def)
qed

section \<open>Resetting the streak\<close>

text \<open>
  Claim C10.  \<^verbatim>\<open>resetStreak\<close> sets the streak to 0 and leaves every other field of the
  state as it was: the last entry date, the longest streak, the experience points, the
  counters, the achievements, the unlocks, the quests and the weekly tracking fields.
\<close>

theorem resetStreak_frame:
  "streak (state (resetStreak st)) = 0 \<and>
   lastEntryDate (state (resetStreak st)) = lastEntryDate (state st) \<and>
   longestStreak (state (resetStreak st)) = longestStreak (state st) \<and>
   xp (state (resetStreak st)) = xp (state st) \<and>
   totalEntries (state (resetStreak st)) = totalEntries (state st) \<and>
   totalFocusMinutes (state (resetStreak st)) = totalFocusMinutes (state st) \<and>
   mathTaggedEntries (state (resetStreak st)) = mathTaggedEntries (state st) \<and>
   achievements (state (resetStreak st)) = achievements (state st) \<and>
   unlocks (state (resetStreak st)) = unlocks (state st) \<and>
   quests (state (resetStreak st)) = quests (state st) \<and>
   weeklyEntriesCount (state (resetStreak st)) = weeklyEntriesCount (state st) \<and>
   weeklyHighFocusDays (state (resetStreak st)) = weeklyHighFocusDays (state st) \<and>
   weekStartDate (state (resetStreak st)) = weekStartDate (state st) \<and>
   state (resetStreak st) = (state st)\<lparr>streak := 0\<rparr>"
  by (simp add: resetStreak_def)


section \<open>A second entry on the same day\<close>

text \<open>
  Claim C4.  When the entry's date is the same calendar day as the last entry date of the
  state, \<^verbatim>\<open>registerEntry\<close> leaves the streak, the number of entries and the number of
  math-tagged entries as they were, adds the entry's focus minutes (0 when absent) to the
  total focus minutes, and adds the focus minutes divided by 5, rounded down, to the
  experience points: the focus reward only.
\<close>

theorem same_day_entry:
  assumes last: "lastEntryDate (state st) = Some l"
    and parsed: "newDate h l = ValidDate a" "newDate h (date entry) = ValidDate b"
    and same: "calendarDay a = calendarDay b"
  shows "streak (state (registerEntry h t1 t2 t3 entry st)) = streak (state st) \<and>
         totalEntries (state (registerEntry h t1 t2 t3 entry st)) = totalEntries (state st) \<and>
         mathTaggedEntries (state (registerEntry h t1 t2 t3 entry st))
           = mathTaggedEntries (state st) \<and>
         totalFocusMinutes (state (registerEntry h t1 t2 t3 entry st))
           = totalFocusMinutes (state st)
             + (case focusMinutes entry of None \<Rightarrow> 0 | Some m \<Rightarrow> m) \<and>
         xp (state (registerEntry h t1 t2 t3 entry st))
           = xp (state st) + (case focusMinutes entry of None \<Rightarrow> 0 | Some m \<Rightarrow> m div 5)"
proof -
  let ?s1 = "resetWeeklyQuestsUpdate h t1 (state st)"
  have r: "calculateStreak h (lastEntryDate ?s1) (streak ?s1) (newDate h (date entry))
      = \<lparr>newStreak = streak (state st), isNewDay = False\<rparr>"
    using last parsed same by (simp add: calculateStreak_same_day)
  show ?thesis
    using r by (simp add: state_registerEntry registerEntryUpdate_def Let_def split: option.split)
qed

theorem same_day_entry_witness:
  "lastEntryDate (state afterMorning) = Some ''2024-01-03T08:00:00.000Z'' \<and>
   newDate utcHost ''2024-01-03T08:00:00.000Z'' = ValidDate morning \<and>
   newDate utcHost (date noonEntry) = ValidDate noon \<and>
   calendarDay morning = calendarDay noon \<and>
   streak (state (registerEntry utcHost noon noon noon noonEntry afterMorning)) = 1 \<and>
   totalEntries (state (registerEntry utcHost noon noon noon noonEntry afterMorning)) = 1 \<and>
   mathTaggedEntries (state (registerEntry utcHost noon noon noon noonEntry afterMorning)) = 0 \<and>
   totalFocusMinutes (state (registerEntry utcHost noon noon noon noonEntry afterMorning)) = 270 \<and>
   xp (state (registerEntry utcHost noon noon noon noonEntry afterMorning)) = 66"
proof -
  have parsed: "newDate utcHost (date noonEntry) = ValidDate noon"
    by (simp add: noonEntry_def utc_noon)
  have same: "calendarDay morning = calendarDay noon"
    by (simp add: calendarDay_def morning_def noon_def)
  from same_day_entry [OF afterMorning_fields(1) utc_morning parsed same,
      of noon noon noon]
  show ?thesis
    using parsed same utc_morning by (simp add: afterMorning_fields noonEntry_def)
qed

section \<open>Claiming a quest\<close>

text \<open>
  Claim C9.  \<^verbatim>\<open>claimQuest\<close> leaves the store as it is unless the quest exists, is
  completed and is not claimed.  Otherwise it first commits the state with the quest's
  claimed flag set and then runs the experience-point mutator on the quest's reward; the
  final state differs from the first one in that flag and in what the mutator changes (the
  points and the unlocks), and the log shows the two commits in that order.
\<close>

theorem claimQuest_effect:
  "((\<forall>q. quests (state st) questId = Some q \<longrightarrow> \<not> completed q \<or> claimed q) \<longrightarrow>
      claimQuest questId st = st) \<and>
   (quests (state st) questId = Some q \<and> completed q \<and> \<not> claimed q \<longrightarrow>
      claimQuest questId st
        = addXP (rewardXP q)
            (setState (\<lambda>s. s\<lparr>quests := (quests s)(questId \<mapsto> q\<lparr>claimed := True\<rparr>)\<rparr>) st) \<and>
      state (claimQuest questId st)
        = (state st)
            \<lparr>quests := (quests (state st))(questId \<mapsto> q\<lparr>claimed := True\<rparr>),
             xp := (if 0 < rewardXP q then xp (state st) + rewardXP q else xp (state st)),
             unlocks := (if 0 < rewardXP q
                         then updateUnlocks (unlocks (state st))
                                (calculateLevel (xp (state st) + rewardXP q))
                         else unlocks (state st))\<rparr> \<and>
      commits (claimQuest questId st)
        = commits st @
          [(state st)\<lparr>quests := (quests (state st))(questId \<mapsto> q\<lparr>claimed := True\<rparr>)\<rparr>] @
          (if 0 < rewardXP q then [state (claimQuest questId st)] else []))"
proof (intro conjI impI)
  assume "\<forall>q. quests (state st) questId = Some q \<longrightarrow> \<not> completed q \<or> claimed q"
  then show "claimQuest questId st = st"
    by (auto simp add: claimQuest_def split: option.split)
next
  assume c: "quests (state st) questId = Some q \<and> completed q \<and> \<not> claimed q"
  then show eq: "claimQuest questId st
        = addXP (rewardXP q)
            (setState (\<lambda>s. s\<lparr>quests := (quests s)(questId \<mapsto> q\<lparr>claimed := True\<rparr>)\<rparr>) st)"
    by (simp add: claimQuest_def setState_def Let_def)
  from c show "state (claimQuest questId st)
        = (state st)
            \<lparr>quests := (quests (state st))(questId \<mapsto> q\<lparr>claimed := True\<rparr>),
             xp := (if 0 < rewardXP q then xp (state st) + rewardXP q else xp (state st)),
             unlocks := (if 0 < rewardXP q
                         then updateUnlocks (unlocks (state st))
                                (calculateLevel (xp (state st) + rewardXP q))
                         else unlocks (state st))\<rparr>"
    by (simp add: eq addXP_def Let_def)
  from c show "commits (claimQuest questId st)
        = commits st @
          [(state st)\<lparr>quests := (quests (state st))(questId \<mapsto> q\<lparr>claimed := True\<rparr>)\<rparr>] @
          (if 0 < rewardXP q then [state (claimQuest questId st)] else [])"
    by (simp add: eq addXP_def Let_def)
qed


theorem claimQuest_effect_witness:
  "quests (state claimableStore) ''math-tags-5''
     = Some (mathTags5\<lparr>progress := 5, completed := True\<rparr>) \<and>
   completed (mathTags5\<lparr>progress := 5, completed := True\<rparr>) \<and>
   \<not> claimed (mathTags5\<lparr>progress := 5, completed := True\<rparr>) \<and>
   xp (state (claimQuest ''math-tags-5'' claimableStore)) = 75 \<and>
   quests (state (claimQuest ''math-tags-5'' claimableStore)) ''math-tags-5''
     = Some (mathTags5\<lparr>progress := 5, completed := True, claimed := True\<rparr>) \<and>
   length (commits (claimQuest ''math-tags-5'' claimableStore)) = 2 \<and>
   quests (state claimableStore) ''weekly-entries-3'' = Some weeklyEntries3 \<and>
   \<not> completed weeklyEntries3 \<and>
   claimQuest ''weekly-entries-3'' claimableStore = claimableStore"
proof -
  let ?q = "mathTags5\<lparr>progress := 5, completed := True\<rparr>"
  have found: "quests (state claimableStore) ''math-tags-5'' = Some ?q"
    by (simp add: claimableStore_def)
  have ready: "completed ?q" "\<not> claimed ?q"
    by (simp_all add: mathTags5_def)
  have reward: "rewardXP ?q = 75"
    by (simp add: mathTags5_def)
  have other: "\<forall>q. quests (state claimableStore) ''weekly-entries-3'' = Some q
      \<longrightarrow> \<not> completed q \<or> claimed q"
    by (simp add: claimableStore_def DEFAULT_QUESTS_def weeklyEntries3_def)
  have before: "xp (state claimableStore) = 0" "commits claimableStore = []"
    by (simp_all add: claimableStore_def INITIAL_STATE_def)
  have hyp: "quests (state claimableStore) ''math-tags-5'' = Some ?q \<and> completed ?q \<and> \<not> claimed ?q"
    using found ready by simp
  note claim = conjunct2 [OF claimQuest_effect [of claimableStore "''math-tags-5''" ?q],
      THEN mp, OF hyp]
  note after = claim [THEN conjunct2, THEN conjunct1]
  note log = claim [THEN conjunct2, THEN conjunct2]
  note noop = conjunct1 [OF claimQuest_effect [of claimableStore "''weekly-entries-3''" ?q],
      THEN mp, OF other]
  have "xp (state (claimQuest ''math-tags-5'' claimableStore)) = 75"
    by (simp add: after reward before)
  moreover have "quests (state (claimQuest ''math-tags-5'' claimableStore)) ''math-tags-5''
     = Some (mathTags5\<lparr>progress := 5, completed := True, claimed := True\<rparr>)"
    by (simp add: after)
  moreover have "length (commits (claimQuest ''math-tags-5'' claimableStore)) = 2"
    by (simp add: log reward before)
  moreover have "quests (state claimableStore) ''weekly-entries-3'' = Some weeklyEntries3"
    "\<not> completed weeklyEntries3"
    by (simp_all add: claimableStore_def DEFAULT_QUESTS_def INITIAL_STATE_def weeklyEntries3_def)
  ultimately show ?thesis
    using found ready noop by simp
qed


section \<open>The weekly counters\<close>

text \<open>
  Claim C1 says that \<^verbatim>\<open>registerEntry\<close> on an entry of a new calendar day in the
  current week adds 1 to the weekly entry count, and 1 to the weekly high-focus days when
  the entry's focus level is at least 7.  The quest update runs after the entry's date has
  been committed as the last entry date, so it always finds the entry on the same day as
  the last one (lemma \<open>quest_step_after_commit\<close>).  Here the first entry ever, made on
  Wednesday, 3 January 2024 with focus level 8 and registered at that moment, leaves both
  counters and the progress of the weekly entries quest at 0.
\<close>

theorem registerEntry_new_day_not_counted:
  "isNewDay (calculateStreak utcHost (lastEntryDate (state newStore)) (streak (state newStore))
      (newDate utcHost (date morningEntry))) \<and>
   isSameWeek (newDate utcHost (date morningEntry)) (ValidDate morning) \<and>
   7 \<le> derivedFocusLevel morningEntry \<and>
   weeklyEntriesCount (state newStore) = 0 \<and>
   weeklyHighFocusDays (state newStore) = 0 \<and>
   weeklyEntriesCount
     (state (registerEntry utcHost morning morning morning morningEntry newStore)) = 0 \<and>
   weeklyHighFocusDays
     (state (registerEntry utcHost morning morning morning morningEntry newStore)) = 0 \<and>
   map_option progress
     (quests (state (registerEntry utcHost morning morning morning morningEntry newStore))
        ''weekly-entries-3'') = Some 0"
proof -
  have parsed: "newDate utcHost (date morningEntry) = ValidDate morning"
    by (simp add: morningEntry_def utc_morning)
  have fresh: "weekStartDate (state newStore) = None" "lastEntryDate (state newStore) = None"
    "weeklyEntriesCount (state newStore) = 0" "weeklyHighFocusDays (state newStore) = 0"
    by (simp_all add: newStore_def INITIAL_STATE_def)
  have first: "isNewDay (calculateStreak utcHost (lastEntryDate (state newStore))
      (streak (state newStore)) (newDate utcHost (date morningEntry)))"
    by (simp add: fresh calculateStreak_def)
  have week: "isSameWeek (newDate utcHost (date morningEntry)) (ValidDate morning)"
    by (simp add: parsed isSameWeek_def getWeekStart_def isSameDay_refl)
  have focus: "7 \<le> derivedFocusLevel morningEntry"
    by (simp add: derivedFocusLevel_def morningEntry_def)
  have counters:
    "weeklyEntriesCount
       (state (registerEntry utcHost morning morning morning morningEntry newStore)) = 0"
    "weeklyHighFocusDays
       (state (registerEntry utcHost morning morning morning morningEntry newStore)) = 0"
    by (simp_all add: quest_step_after_commit [OF parsed] resetWeekly_fresh fresh)
  have quest: "map_option progress
     (quests (state (registerEntry utcHost morning morning morning morningEntry newStore))
        ''weekly-entries-3'') = Some 0"
    using parsed
    by (simp add: state_registerEntry updateQuestsUpdate_def Let_def registerEntryUpdate_fields
          resetWeekly_fresh fresh isSameDay_refl morningEntry_def newStore_def INITIAL_STATE_def
          DEFAULT_QUESTS_def weeklyEntries3_def updateQuest_def)
  from first week focus fresh(3,4) counters quest show ?thesis
    by simp
qed

section \<open>The commits of registerEntry\<close>

text \<open>
  Claim C2, as stated: \<^verbatim>\<open>registerEntry\<close> is the transaction \<open>registerEntryAtomic\<close>,
  one commit for the weekly reset check together with the entry's updates and one for the
  quests.  It is not: the weekly reset check is committed on its own first, and that
  snapshot already carries the new week start while the entry is not yet counted.
\<close>

theorem registerEntry_not_atomic:
  "registerEntry utcHost morning morning morning morningEntry newStore
     \<noteq> registerEntryAtomic utcHost morning morning morning morningEntry newStore \<and>
   length (commits (registerEntry utcHost morning morning morning morningEntry newStore)) = 3 \<and>
   weekStartDate (hd (commits
      (registerEntry utcHost morning morning morning morningEntry newStore)))
     \<noteq> weekStartDate (state newStore) \<and>
   xp (hd (commits (registerEntry utcHost morning morning morning morningEntry newStore))) = 0 \<and>
   xp (state (registerEntry utcHost morning morning morning morningEntry newStore)) = 60"
proof -
  let ?r = "registerEntry utcHost morning morning morning morningEntry newStore"
  let ?a = "registerEntryAtomic utcHost morning morning morning morningEntry newStore"
  have len: "length (commits ?r) = 3" "length (commits ?a) = 2"
    by (simp_all add: registerEntry_def registerEntryAtomic_def updateQuests_def
          resetWeeklyQuests_def Let_def newStore_def)
  then have "commits ?r \<noteq> commits ?a"
    by auto
  then have differ: "?r \<noteq> ?a"
    by auto
  have first: "hd (commits ?r) = resetWeeklyQuestsUpdate utcHost morning (state newStore)"
    by (simp add: registerEntry_def updateQuests_def resetWeeklyQuests_def Let_def newStore_def)
  have fresh: "weekStartDate (state newStore) = None"
    by (simp add: newStore_def INITIAL_STATE_def)
  have week: "weekStartDate (hd (commits ?r)) \<noteq> weekStartDate (state newStore)"
    by (simp add: first resetWeekly_fresh fresh)
  have "xp (state newStore) = 0"
    by (simp add: newStore_def INITIAL_STATE_def)
  then have before: "xp (hd (commits ?r)) = 0"
    by (simp add: first)
  have after: "xp (state ?r) = 60"
    using afterMorning_fields(6) by (simp add: afterMorning_def)
  from differ len(1) week before after show ?thesis
    by simp
qed


text \<open>
  Claim C2, amended.  \<^verbatim>\<open>registerEntry\<close> commits three snapshots: the weekly reset
  check, then the entry's updates derived from one read of that state, then the quest
  update on the state just committed.  Its final state is that of the atomic transaction,
  whose two commits are the last two of the three.
\<close>

theorem registerEntry_commits:
  "commits (registerEntry h t1 t2 t3 entry st)
     = commits st @
       [resetWeeklyQuestsUpdate h t1 (state st),
        registerEntryUpdate h t2 entry (resetWeeklyQuestsUpdate h t1 (state st)),
        updateQuestsUpdate h t3 entry
          (registerEntryUpdate h t2 entry (resetWeeklyQuestsUpdate h t1 (state st)))] \<and>
   commits (registerEntryAtomic h t1 t2 t3 entry st)
     = commits st @
       [registerEntryUpdate h t2 entry (resetWeeklyQuestsUpdate h t1 (state st)),
        updateQuestsUpdate h t3 entry
          (registerEntryUpdate h t2 entry (resetWeeklyQuestsUpdate h t1 (state st)))] \<and>
   state (registerEntry h t1 t2 t3 entry st) = state (registerEntryAtomic h t1 t2 t3 entry st)"
  by (simp add: registerEntry_def registerEntryAtomic_def updateQuests_def
        resetWeeklyQuests_def Let_def)

theorem registerEntry_commits_witness:
  "length (commits (registerEntry utcHost morning morning morning morningEntry newStore)) = 3 \<and>
   length (commits (registerEntryAtomic utcHost morning morning morning morningEntry newStore)) = 2 \<and>
   xp (state (registerEntry utcHost morning morning morning morningEntry newStore))
     = xp (state (registerEntryAtomic utcHost morning morning morning morningEntry newStore))"
  using registerEntry_commits [of utcHost morning morning morning morningEntry newStore]
  by (simp add: newStore_def)


section \<open>Achievements stay unlocked\<close>

text \<open>
  Claim C6, as stated: an unlocked achievement stays unlocked under every sequence of the
  public mutators.  \<^verbatim>\<open>resetState\<close> is one of them and puts the default achievements
  back: after the morning entry of 240 focus minutes \<^verbatim>\<open>deep-focus\<close> is unlocked, and
  after \<^verbatim>\<open>resetState\<close> it is locked again.
\<close>

theorem resetState_relocks:
  "a_unlocked (achievements (state afterMorning) DeepFocus) \<and>
   \<not> a_unlocked (achievements (state (run utcHost ResetState afterMorning)) DeepFocus)"
  using afterMorning_deepFocus
  by (simp add: resetState_def INITIAL_STATE_def DEFAULT_ACHIEVEMENTS_def)


text \<open>
  Claim C6, amended.  Under every sequence of mutators that does not contain
  \<^verbatim>\<open>resetState\<close>, an achievement that is unlocked keeps its whole record: it stays
  unlocked, and its progress and its time stamp are not computed again, whatever happens
  to the counters.
\<close>

theorem unlocked_stays:
  "ResetState \<notin> set ms \<Longrightarrow> a_unlocked (achievements (state st) i) \<Longrightarrow>
     achievements (state (runAll h ms st)) i = achievements (state st) i"
proof (induction ms arbitrary: st)
  case Nil
  then show ?case by simp
next
  case (Cons m ms)
  from Cons.prems have "m \<noteq> ResetState"
    by auto
  with Cons.prems have step: "achievements (state (run h m st)) i = achievements (state st) i"
    by (simp add: run_keeps_unlocked)
  with Cons.prems have "a_unlocked (achievements (state (run h m st)) i)"
    by simp
  with Cons.IH [of "run h m st"] Cons.prems step show ?case
    by simp
qed

theorem unlocked_stays_witness:
  "ResetState \<notin> set [RegisterEntry noon noon noon noonEntry, ResetStreak] \<and>
   a_unlocked (achievements (state afterMorning) DeepFocus) \<and>
   achievements
     (state (runAll utcHost [RegisterEntry noon noon noon noonEntry, ResetStreak] afterMorning))
     DeepFocus
     = achievements (state afterMorning) DeepFocus"
proof -
  have allowed: "ResetState \<notin> set [RegisterEntry noon noon noon noonEntry, ResetStreak]"
    by simp
  from unlocked_stays [OF allowed afterMorning_deepFocus, of utcHost] allowed
    afterMorning_deepFocus
  show ?thesis by simp
qed

section \<open>The longest streak\<close>

text \<open>
  Claim C7, as stated: the longest streak never decreases under a public mutation.
  \<^verbatim>\<open>resetState\<close> sets it back to 0: after the morning entry it is 1, and after
  \<^verbatim>\<open>resetState\<close> it is 0.
\<close>

theorem resetState_lowers_longestStreak:
  "longestStreak (state afterMorning) = 1 \<and>
   longestStreak (state (run utcHost ResetState afterMorning)) = 0"
  using afterMorning_fields(7)
  by (simp add: resetState_def INITIAL_STATE_def)


text \<open>
  Claim C7, amended.  The longest streak does not decrease under any sequence of mutators
  without \<^verbatim>\<open>resetState\<close>.  A state whose streak is at most its longest streak, the
  latter not negative, keeps that under every sequence of mutators, \<^verbatim>\<open>resetState\<close>
  included; so the streak is at most the longest streak in every state reached from the
  initial one.
\<close>

theorem longestStreak_keeps:
  "(ResetState \<notin> set ms \<longrightarrow>
      longestStreak (state st) \<le> longestStreak (state (runAll h ms st))) \<and>
   (streak (state st) \<le> longestStreak (state st) \<and> 0 \<le> longestStreak (state st) \<longrightarrow>
      streak (state (runAll h ms st)) \<le> longestStreak (state (runAll h ms st))) \<and>
   streak (state (runAll h ms newStore)) \<le> longestStreak (state (runAll h ms newStore))"
proof (intro conjI impI)
  assume "ResetState \<notin> set ms"
  then show "longestStreak (state st) \<le> longestStreak (state (runAll h ms st))"
    by (rule runAll_longest_mono)
next
  assume "streak (state st) \<le> longestStreak (state st) \<and> 0 \<le> longestStreak (state st)"
  then have "streakInv (state st)"
    by (simp add: streakInv_def)
  then have "streakInv (state (runAll h ms st))"
    by (rule runAll_streakInv)
  then show "streak (state (runAll h ms st)) \<le> longestStreak (state (runAll h ms st))"
    by (simp add: streakInv_def)
next
  have "streakInv (state newStore)"
    by (simp add: streakInv_def newStore_def INITIAL_STATE_def)
  then have "streakInv (state (runAll h ms newStore))"
    by (rule runAll_streakInv)
  then show "streak (state (runAll h ms newStore)) \<le> longestStreak (state (runAll h ms newStore))"
    by (simp add: streakInv_def)
qed


theorem longestStreak_keeps_witness:
  "ResetState \<notin> set [RegisterEntry noon noon noon noonEntry, ResetStreak] \<and>
   longestStreak (state afterMorning)
     \<le> longestStreak
         (state (runAll utcHost [RegisterEntry noon noon noon noonEntry, ResetStreak]
            afterMorning)) \<and>
   streak (state afterMorning) \<le> longestStreak (state afterMorning) \<and>
   0 \<le> longestStreak (state afterMorning) \<and>
   streak (state (runAll utcHost [RegisterEntry noon noon noon noonEntry, ResetStreak]
      afterMorning))
     \<le> longestStreak
         (state (runAll utcHost [RegisterEntry noon noon noon noonEntry, ResetStreak]
            afterMorning))"
proof -
  have allowed: "ResetState \<notin> set [RegisterEntry noon noon noon noonEntry, ResetStreak]"
    by simp
  have inv: "streak (state afterMorning) \<le> longestStreak (state afterMorning) \<and>
      0 \<le> longestStreak (state afterMorning)"
    by (simp add: afterMorning_fields)
  note keeps = longestStreak_keeps
    [of "[RegisterEntry noon noon noon noonEntry, ResetStreak]" afterMorning utcHost]
  from keeps [THEN conjunct1, THEN mp, OF allowed]
    keeps [THEN conjunct2, THEN conjunct1, THEN mp, OF inv] allowed inv
  show ?thesis by blast
qed



section \<open>The quest invariant\<close>

text \<open>
  Claim C5.  After every operation of the hook (\<^verbatim>\<open>registerEntry\<close>, \<^verbatim>\<open>addXP\<close>,
  \<^verbatim>\<open>claimQuest\<close>, \<^verbatim>\<open>resetStreak\<close>, \<^verbatim>\<open>resetWeeklyQuests\<close>, \<^verbatim>\<open>resetState\<close>, the
  quest update for an entry, the streak update and the effects on mounting), every quest of
  the state has a progress between 0 and its target, is completed exactly when the progress
  has reached the target, and is claimed only when completed.  This holds in every state
  reached from the initial one, and every operation keeps it in a state whose quests have
  positive targets and whose counters are not negative.
\<close>

theorem quests_stay_ok:
  "(\<forall>questId q. quests (state (runAll h ms newStore)) questId = Some q \<longrightarrow> questOk q) \<and>
   (engineInv (state st) \<longrightarrow>
      (\<forall>questId q. quests (state (run h m st)) questId = Some q \<longrightarrow> questOk q))"
proof (intro conjI impI)
  have "engineInv (state newStore)"
    by (simp add: newStore_def engineInv_initial)
  then have "engineInv (state (runAll h ms newStore))"
    by (rule runAll_engineInv)
  then show "\<forall>questId q. quests (state (runAll h ms newStore)) questId = Some q \<longrightarrow> questOk q"
    by (simp add: engineInv_def)
next
  assume "engineInv (state st)"
  then have "engineInv (state (run h m st))"
    by (rule run_engineInv)
  then show "\<forall>questId q. quests (state (run h m st)) questId = Some q \<longrightarrow> questOk q"
    by (simp add: engineInv_def)
qed


theorem quests_stay_ok_witness:
  "quests (state (runAll utcHost [UpdateQuestsOnEntry morning morningEntry] newStore))
     ''high-focus-2-days'' = Some (highFocus2Days\<lparr>progress := 1\<rparr>) \<and>
   questOk (highFocus2Days\<lparr>progress := 1\<rparr>) \<and>
   engineInv (state newStore) \<and>
   quests (state (run utcHost ResetStreak newStore)) ''math-tags-5'' = Some mathTags5 \<and>
   questOk mathTags5"
proof -
  have week: "isSameWeek (ValidDate morning) (ValidDate morning)"
    by (simp add: isSameWeek_def getWeekStart_def isSameDay_refl)
  have parsed: "newDate utcHost (date morningEntry) = ValidDate morning"
    by (simp add: morningEntry_def utc_morning)
  have focus: "derivedFocusLevel morningEntry = 8"
    by (simp add: derivedFocusLevel_def morningEntry_def)
  have quest: "quests (state (runAll utcHost [UpdateQuestsOnEntry morning morningEntry] newStore))
     ''high-focus-2-days'' = Some (highFocus2Days\<lparr>progress := 1\<rparr>)"
    by (simp add: updateQuests_def updateQuestsUpdate_def Let_def parsed week focus
          newStore_def INITIAL_STATE_def DEFAULT_QUESTS_def updateQuest_def highFocus2Days_def)
  have inv: "engineInv (state newStore)"
    by (simp add: newStore_def engineInv_initial)
  have other: "quests (state (run utcHost ResetStreak newStore)) ''math-tags-5'' = Some mathTags5"
    by (simp add: resetStreak_def newStore_def INITIAL_STATE_def DEFAULT_QUESTS_def)
  note ok = quests_stay_ok
    [of utcHost "[UpdateQuestsOnEntry morning morningEntry]" newStore ResetStreak]
  from ok [THEN conjunct1, rule_format, OF quest]
    ok [THEN conjunct2, rule_format, OF inv other] quest inv other
  show ?thesis by simp
qed


end
